theory Spec2Isabelle
  imports Main "HOL-Library.Sublist"
begin

section \<open>The llc driver (tools/llc/llc.cpp)\<close>

text \<open>
  The driver is one function, \<open>llc_main\<close>, with three helpers
  (\<open>GetFileNameRoot\<close>, \<open>GetOutputStream\<close>, \<open>WriteTextMetadataFile\<close>).
  It is modelled in the build that has a \<open>main\<close> of its own: neither
  \<open>__native_client__\<close> nor \<open>NACL_SRPC\<close> is defined, so of every
  \<open>#if\<close> the file-based branch is taken.

  Everything the driver calls in the compiler library (module loading, the target
  registry, the pass managers, the output files) is outside the file. The library
  is a record of functions, \<open>Library\<close>, that the driver is given; every
  theorem holds for every library.
\<close>

subsection \<open>Command-line options\<close>

datatype CodeGenFileType = CGFT_AssemblyFile | CGFT_ObjectFile | CGFT_Null

datatype CodeGenOptLevel =
  CodeGenOpt_None | CodeGenOpt_Less | CodeGenOpt_Default | CodeGenOpt_Aggressive

text \<open>
  \<open>Triple::OSType\<close>: the driver compares it with \<open>Win32\<close> only; every other
  enumerator is \<open>OtherOS\<close> with its number.
\<close>

datatype OSType = Win32 | OtherOS nat

type_synonym Triple = string

text \<open>
  The \<open>cl::opt\<close> globals the driver reads. \<open>InputFilename\<close> to
  \<open>ReduceMemoryFootprint\<close> are declared in llc.cpp (lines 77-127); \<open>MArch\<close> to
  \<open>StopAfter\<close> come from CodeGen/CommandFlags.h. \<open>ProgName\<close> is \<open>argv[0]\<close>. The initial values are
  \<open>InputFilename = "-"\<close>, \<open>OptLevel = ' '\<close>, the flags false and the other strings
  empty. The floating-point and ABI flags that are copied unchanged into
  \<open>TargetOptions\<close>, the relocation and code models, and the flags that only reach a
  setter of the target machine (\<open>DisableDotLoc\<close>, \<open>DisableCFI\<close>,
  \<open>EnableDwarfDirectory\<close>, \<open>RelaxAll\<close>, which otherwise only prints a warning)
  decide no branch of the driver that returns and are left out, as is the printing of
  the option values (\<open>cl::PrintOptionValues\<close>).
\<close>

record Options =
  ProgName :: string
  InputFilename :: string
  OutputFilename :: string
  MetadataTextFilename :: string
  OptLevel :: char
  TargetTriple :: string
  NoVerify :: bool
  DisableSimplifyLibCalls :: bool
  LazyBitcode :: bool
  ReduceMemoryFootprint :: bool
  MArch :: string
  MCPU :: string
  MAttrs :: "string list"
  FileType :: CodeGenFileType
  StartAfter :: string
  StopAfter :: string

subsection \<open>GetFileNameRoot (lines 131-145)\<close>

text \<open>
  \<open>int Len = IFN.length()\<close> converts the unsigned length to a 32-bit \<open>int\<close>:
  the low 32 bits of the length, read in two's complement. For a name of
  \<open>2^31\<close> characters or more \<open>Len\<close> is not the length.
\<close>

definition size_to_int :: "nat \<Rightarrow> int" where
  "size_to_int n =
     (let low = int n mod 2 ^ 32 in if low < 2 ^ 31 then low else low - 2 ^ 32)"

text \<open>
  The three index reads happen only under \<open>Len > 2\<close>, as in the source, and
  then they are within the string, since \<open>Len\<close> is at most the length. The
  result is cut with \<open>IFN.end() - 3\<close>, from the true end of the string.
\<close>

definition GetFileNameRoot :: "string \<Rightarrow> string" where
  "GetFileNameRoot IFN =
     (let Len = size_to_int (length IFN) in
      if Len > 2 \<and>
         IFN ! nat (Len - 3) = CHR ''.'' \<and>
         ((IFN ! nat (Len - 2) = CHR ''b'' \<and> IFN ! nat (Len - 1) = CHR ''c'') \<or>
          (IFN ! nat (Len - 2) = CHR ''l'' \<and> IFN ! nat (Len - 1) = CHR ''l''))
      then take (length IFN - 3) IFN
      else IFN)"

subsection \<open>GetOutputStream (lines 147-206)\<close>

text \<open>
  \<open>TargetName\<close> is a NUL-terminated C string: the list holds the characters
  before the terminator, and reading the position just behind them yields the
  terminator, \<open>None\<close> here. The source reads position 1 only when position 0 is
  \<open>'c'\<close> and position 2 only when position 1 is \<open>'p'\<close>, so it never reads
  behind the terminator.
\<close>

definition c_str_at :: "string \<Rightarrow> nat \<Rightarrow> char option" where
  "c_str_at s i = (if i < length s then Some (s ! i) else None)"

text \<open>The \<open>switch (FileType)\<close> of lines 157-178: the extension appended.\<close>

definition OutputExtension :: "CodeGenFileType \<Rightarrow> string \<Rightarrow> OSType \<Rightarrow> string" where
  "OutputExtension FT TargetName OS =
     (case FT of
        CGFT_AssemblyFile \<Rightarrow>
          (if c_str_at TargetName 0 = Some (CHR ''c'') then
             (if c_str_at TargetName 1 = None then ''.cbe.c''
              else if c_str_at TargetName 1 = Some (CHR ''p'') \<and>
                      c_str_at TargetName 2 = Some (CHR ''p'') then ''.cpp''
              else ''.s'')
           else ''.s'')
      | CGFT_ObjectFile \<Rightarrow> (if OS = Win32 then ''.obj'' else ''.o'')
      | CGFT_Null \<Rightarrow> ''.null'')"

text \<open>Lines 150-180: the value of the global \<open>OutputFilename\<close> after the first block.\<close>

definition MakeOutputFilename :: "Options \<Rightarrow> string \<Rightarrow> OSType \<Rightarrow> string" where
  "MakeOutputFilename opts TargetName OS =
     (if OutputFilename opts = [] then
        (if InputFilename opts = ''-'' then ''-''
         else GetFileNameRoot (InputFilename opts) @
              OutputExtension (FileType opts) TargetName OS)
      else OutputFilename opts)"

text \<open>Lines 182-191: whether the file is opened in binary mode.\<close>

definition NeedBinary :: "CodeGenFileType \<Rightarrow> bool" where
  "NeedBinary FT =
     (case FT of
        CGFT_AssemblyFile \<Rightarrow> False
      | CGFT_ObjectFile \<Rightarrow> True
      | CGFT_Null \<Rightarrow> True)"

subsection \<open>The output-name rule as the specification words it\<close>



subsection \<open>The compiler library, as the driver sees it\<close>

text \<open>
  A loaded \<open>Module\<close>: the fields are what the driver itself reads or sets
  (\<open>getTargetTriple\<close> and \<open>setTargetTriple\<close>, the layout that
  \<open>new DataLayout(mod)\<close> is built from, and the function list that
  \<open>begin()\<close> to \<open>end()\<close> walks, in declaration order).
\<close>

record Module =
  ModuleTriple :: string
  ModuleDataLayout :: string
  ModuleFunctions :: "string list"

record Target =
  getName :: string

text \<open>
  A \<open>TargetMachine\<close>: \<open>getDataLayout\<close> is \<open>None\<close> for the null pointer;
  \<open>TransformInfo\<close> stands for the pair of scalar and vector transform
  information; \<open>MachineHandle\<close> tells the machines of the library apart.
\<close>

record TargetMachine =
  getDataLayout :: "string option"
  TransformInfo :: nat
  MachineHandle :: nat

text \<open>
  The passes a pass manager holds, in the order of the \<open>add\<close> calls. The first
  four constructors are the passes the driver builds itself (lines 471-486);
  \<open>BackendPass\<close> is a pass that \<open>addPassesToEmitFile\<close> installs.
  \<open>TargetLibraryInfo t d\<close> is built for the triple \<open>t\<close>, and \<open>d\<close> says that
  \<open>disableAllFunctions\<close> was called on it.
\<close>

datatype Pass =
    TargetLibraryInfo Triple bool
  | TargetTransformInfo nat
  | DataLayoutOfTarget string
  | DataLayoutOfModule string
  | BackendPass nat

datatype PassManagerKind = NewFunctionPassManager | NewPassManager

text \<open>
  The calls the driver makes on the loaded module after it has fixed the triple.
  A function is named by its position in the module's function list, which is
  where the iterator \<open>I\<close> stands. What a call does to the module is the
  library's business: a module in use is the module as loaded together with the
  calls made on it so far.
\<close>

datatype ModuleOp =
    PassManager_run "Pass list"
  | FPM_doInitialization "Pass list"
  | FPM_run "Pass list" nat
  | Function_Dematerialize nat
  | FPM_doFinalization "Pass list"
  | IntrinsicLowering_AddPrototypes "string option"

text \<open>The calls on a \<open>SubtargetFeatures\<close> object, which starts empty.\<close>

datatype FeatureCall = getDefaultSubtargetFeatures Triple | AddFeature string

datatype ELFStub = ELFStub nat

text \<open>
  The two \<open>tool_output_file\<close> objects of an invocation: \<open>Out\<close> in
  \<open>llc_main\<close> and \<open>MOut\<close> in \<open>WriteTextMetadataFile\<close>.
\<close>

datatype Artifact = CodeFile | MetadataFile

text \<open>
  What an invocation does to the world, in order. \<open>OpenFile a name binary\<close> is a
  \<open>tool_output_file\<close> constructed without error; \<open>KeepFile a\<close> is its
  \<open>keep()\<close>. A \<open>tool_output_file\<close> that is destroyed without \<open>keep()\<close>
  deletes its file, so an artifact is committed exactly when \<open>KeepFile\<close> is in
  the trace. The bytes of the compiled code are written by the passes, inside the
  \<open>ModuleCall\<close>s that run them.
\<close>

datatype Event =
    Errs string
  | SMDiagnostic_print string string
  | CreateTargetMachine Triple string string CodeGenOptLevel
  | OpenFile Artifact string bool
  | WriteFile Artifact string
  | KeepFile Artifact
  | ModuleCall ModuleOp

text \<open>
  The library. A loader returns the module (\<open>None\<close> for null) and the text of
  its error; \<open>getStreamedBitcodeModule\<close> is also given the \<open>StrError\<close> it may
  overwrite. \<open>lookupTarget\<close> takes the triple by reference and may adjust it, so
  it returns the triple with the target, or the error text. \<open>Features_getString\<close>
  is \<open>SubtargetFeatures::getString\<close> on an object that received the given calls.
  \<open>OpenError\<close> is the error text of constructing a \<open>tool_output_file\<close> on a
  path, empty when the file was opened. \<open>getPassInfo\<close> yields the registered
  pass's type information. \<open>addPassesToEmitFile\<close> yields the passes the target
  appends to the pass manager, or \<open>None\<close> when it returns true (the file type is
  not supported). \<open>MakeAllStubs\<close> reads the module in use.
\<close>

record Library =
  getDataFileStreamer :: "string \<Rightarrow> nat option \<times> string"
  getStreamedBitcodeModule :: "string \<Rightarrow> nat \<Rightarrow> string \<Rightarrow> Module option \<times> string"
  ParseIRFile :: "string \<Rightarrow> Module option \<times> string"
  Triple_normalize :: "string \<Rightarrow> string"
  getDefaultTargetTriple :: string
  lookupTarget :: "string \<Rightarrow> Triple \<Rightarrow> string + Target \<times> Triple"
  Triple_getOS :: "Triple \<Rightarrow> OSType"
  Features_getString :: "FeatureCall list \<Rightarrow> string"
  createTargetMachine ::
    "Target \<Rightarrow> Triple \<Rightarrow> string \<Rightarrow> string \<Rightarrow> CodeGenOptLevel \<Rightarrow> TargetMachine option"
  OpenError :: "string \<Rightarrow> string"
  getPassInfo :: "string \<Rightarrow> nat option"
  addPassesToEmitFile ::
    "TargetMachine \<Rightarrow> PassManagerKind \<Rightarrow> CodeGenFileType \<Rightarrow> bool \<Rightarrow>
       nat option \<Rightarrow> nat option \<Rightarrow> Pass list option"
  MakeAllStubs :: "Module \<Rightarrow> ModuleOp list \<Rightarrow> Triple \<Rightarrow> ELFStub list"
  WriteTextELFStub :: "ELFStub \<Rightarrow> string \<Rightarrow> string"

text \<open>
  How an invocation ends: \<open>llc_main\<close> returns an exit code, or one of its two
  assertions (lines 434-435) fails.
\<close>

datatype Outcome = Exit int | AssertionFailed

subsection \<open>GetOutputStream, the opening (lines 193-205)\<close>

record tool_output_file =
  Filename :: string
  Binary :: bool

definition newline :: string where
  "newline = [CHR 0x0A]"

definition GetOutputStream ::
  "Library \<Rightarrow> Options \<Rightarrow> string \<Rightarrow> OSType \<Rightarrow> tool_output_file option \<times> Event list" where
  "GetOutputStream lib opts TargetName OS =
     (let name = MakeOutputFilename opts TargetName OS;
          bin = NeedBinary (FileType opts);
          error = OpenError lib name
      in if error \<noteq> [] then (None, [Errs (error @ newline)])
         else (Some \<lparr>Filename = name, Binary = bin\<rparr>, [OpenFile CodeFile name bin]))"

subsection \<open>WriteTextMetadataFile (lines 228-255)\<close>

definition module_ops :: "Event list \<Rightarrow> ModuleOp list" where
  "module_ops tr = concat (map (\<lambda>e. case e of ModuleCall c \<Rightarrow> [c] | _ \<Rightarrow> []) tr)"

definition StubText :: "Library \<Rightarrow> ELFStub list \<Rightarrow> string" where
  "StubText lib StubList = foldl (\<lambda>s stub. WriteTextELFStub lib stub s) [] StubList"

definition WriteTextMetadataFile ::
  "Library \<Rightarrow> Options \<Rightarrow> Module \<Rightarrow> ModuleOp list \<Rightarrow> Triple \<Rightarrow> int \<times> Event list" where
  "WriteTextMetadataFile lib opts M calls TheTriple =
     (let StubList = MakeAllStubs lib M calls TheTriple;
          s = StubText lib StubList;
          error = OpenError lib (MetadataTextFilename opts)
      in if error \<noteq> [] then (1, [Errs (error @ newline)])
         else (0, [OpenFile MetadataFile (MetadataTextFilename opts) True,
                   WriteFile MetadataFile s,
                   KeepFile MetadataFile]))"

subsection \<open>llc_main: module and triple (lines 291-369)\<close>

definition SkipModule :: "Options \<Rightarrow> bool" where
  "SkipModule opts \<longleftrightarrow>
     MCPU opts = ''help'' \<or> (MAttrs opts \<noteq> [] \<and> hd (MAttrs opts) = ''help'')"

definition LoadModule :: "Library \<Rightarrow> Options \<Rightarrow> Module option \<times> string" where
  "LoadModule lib opts =
     (if LazyBitcode opts then
        (case getDataFileStreamer lib (InputFilename opts) of
           (None, StrError) \<Rightarrow> (None, StrError)
         | (Some streamer, StrError) \<Rightarrow>
             getStreamedBitcodeModule lib (InputFilename opts) streamer StrError)
      else ParseIRFile lib (InputFilename opts))"

definition DefaultIfEmpty :: "Library \<Rightarrow> Triple \<Rightarrow> Triple" where
  "DefaultIfEmpty lib t = (if t = [] then getDefaultTargetTriple lib else t)"

definition ResolveModuleAndTriple ::
  "Library \<Rightarrow> Options \<Rightarrow> Event list + Module option \<times> Triple" where
  "ResolveModuleAndTriple lib opts =
     (if \<not> SkipModule opts then
        (case LoadModule lib opts of
           (None, Err) \<Rightarrow> Inl [SMDiagnostic_print (ProgName opts) Err]
         | (Some m, Err) \<Rightarrow>
             (let m' = (if TargetTriple opts \<noteq> []
                        then m\<lparr>ModuleTriple := Triple_normalize lib (TargetTriple opts)\<rparr>
                        else m)
              in Inr (Some m', DefaultIfEmpty lib (ModuleTriple m'))))
      else Inr (None, DefaultIfEmpty lib (Triple_normalize lib (TargetTriple opts))))"

subsection \<open>llc_main: features and optimization level (lines 380-404)\<close>

definition PackageFeatures :: "Library \<Rightarrow> Triple \<Rightarrow> string list \<Rightarrow> string" where
  "PackageFeatures lib TheTriple attrs =
     (if length attrs \<noteq> 0
      then Features_getString lib
             (getDefaultSubtargetFeatures TheTriple # map AddFeature attrs)
      else [])"

definition ParseOptLevel :: "char \<Rightarrow> CodeGenOptLevel option" where
  "ParseOptLevel c =
     (if c = CHR '' '' then Some CodeGenOpt_Default
      else if c = CHR ''0'' then Some CodeGenOpt_None
      else if c = CHR ''1'' then Some CodeGenOpt_Less
      else if c = CHR ''2'' then Some CodeGenOpt_Default
      else if c = CHR ''3'' then Some CodeGenOpt_Aggressive
      else None)"

subsection \<open>llc_main: the pass manager and its run (lines 462-579)\<close>

definition InitialPasses :: "Options \<Rightarrow> Module \<Rightarrow> Triple \<Rightarrow> TargetMachine \<Rightarrow> Pass list" where
  "InitialPasses opts m TheTriple tm =
     [TargetLibraryInfo TheTriple (DisableSimplifyLibCalls opts),
      TargetTransformInfo (TransformInfo tm),
      (case getDataLayout tm of
         Some TD \<Rightarrow> DataLayoutOfTarget TD
       | None \<Rightarrow> DataLayoutOfModule (ModuleDataLayout m))]"

text \<open>
  The loop of lines 569-574 over the positions of the module's functions.
  A function pass may not add or remove functions, so the positions are those of
  the list when the loop starts.
\<close>

primrec run_functions :: "Pass list \<Rightarrow> bool \<Rightarrow> nat list \<Rightarrow> ModuleOp list" where
  "run_functions PM reduce [] = []"
| "run_functions PM reduce (I # rest) =
     FPM_run PM I # (if reduce then [Function_Dematerialize I] else []) @
     run_functions PM reduce rest"

definition RunPipeline :: "Options \<Rightarrow> Module \<Rightarrow> Pass list \<Rightarrow> ModuleOp list" where
  "RunPipeline opts m PM =
     (if LazyBitcode opts \<or> ReduceMemoryFootprint opts then
        FPM_doInitialization PM #
        run_functions PM (ReduceMemoryFootprint opts) [0..<length (ModuleFunctions m)] @
        [FPM_doFinalization PM]
      else [PassManager_run PM])"

text \<open>Lines 464-468: which pass manager is built.\<close>

definition manager_kind :: "Options \<Rightarrow> PassManagerKind" where
  "manager_kind opts =
     (if LazyBitcode opts \<or> ReduceMemoryFootprint opts
      then NewFunctionPassManager else NewPassManager)"

definition LookupPassID :: "Library \<Rightarrow> string \<Rightarrow> nat option option" where
  "LookupPassID lib name =
     (if name \<noteq> [] then
        (case getPassInfo lib name of None \<Rightarrow> None | Some PI \<Rightarrow> Some (Some PI))
      else Some None)"

text \<open>
  Lines 462-579: \<open>Inl\<close> is the trace of a path that returns 1, \<open>Inr\<close> the trace
  of a path that reaches \<open>Out->keep()\<close>.
\<close>

definition BuildAndRun ::
  "Library \<Rightarrow> Options \<Rightarrow> Module \<Rightarrow> Triple \<Rightarrow> TargetMachine \<Rightarrow> Event list + Event list" where
  "BuildAndRun lib opts m TheTriple tm =
     (let kind = manager_kind opts;
          PM0 = InitialPasses opts m TheTriple tm
      in case LookupPassID lib (StartAfter opts) of
           None \<Rightarrow> Inl [Errs (ProgName opts @ '': start-after pass is not registered.'' @ newline)]
         | Some StartAfterID \<Rightarrow>
         (case LookupPassID lib (StopAfter opts) of
            None \<Rightarrow> Inl [Errs (ProgName opts @ '': stop-after pass is not registered.'' @ newline)]
          | Some StopAfterID \<Rightarrow>
          (case addPassesToEmitFile lib tm kind (FileType opts) (NoVerify opts)
                  StartAfterID StopAfterID of
             None \<Rightarrow>
               Inl [Errs (ProgName opts @
                      '': target does not support generation of this file type!'' @ newline)]
           | Some backend \<Rightarrow>
               Inr (map ModuleCall (RunPipeline opts m (PM0 @ backend))))))"

subsection \<open>llc_main up to the target machine (lines 291-453)\<close>

text \<open>
  What the first half of \<open>llc_main\<close> has resolved when it reaches line 455: the
  module \<open>mod\<close>, \<open>TheTarget\<close>, \<open>TheTriple\<close>, \<open>FeaturesStr\<close>, \<open>OLvl\<close> and
  the target machine \<open>target\<close>.
\<close>

record Configured =
  the_module :: Module
  the_target :: Target
  the_triple :: Triple
  features_str :: string
  opt_level :: CodeGenOptLevel
  the_machine :: TargetMachine

text \<open>
  \<open>Inl\<close> is an invocation that ends in the first half: a \<open>return 1\<close>, or one
  of the assertions of lines 434-435 (the target machine is null; the module is
  null because \<open>SkipModule\<close> held and the library came back from listing the
  help).
\<close>

definition Configure :: "Library \<Rightarrow> Options \<Rightarrow> Outcome \<times> Event list + Configured" where
  "Configure lib opts =
     (case ResolveModuleAndTriple lib opts of
        Inl ev \<Rightarrow> Inl (Exit 1, ev)
      | Inr (M, TheTriple0) \<Rightarrow>
        (case lookupTarget lib (MArch opts) TheTriple0 of
           Inl Error \<Rightarrow> Inl (Exit 1, [Errs (ProgName opts @ '': '' @ Error)])
         | Inr (TheTarget, TheTriple) \<Rightarrow>
           (let FeaturesStr = PackageFeatures lib TheTriple (MAttrs opts) in
            case ParseOptLevel (OptLevel opts) of
              None \<Rightarrow>
                Inl (Exit 1,
                     [Errs (ProgName opts @ '': invalid optimization level.'' @ newline)])
            | Some OLvl \<Rightarrow>
              (let request = CreateTargetMachine TheTriple (MCPU opts) FeaturesStr OLvl in
               case createTargetMachine lib TheTarget TheTriple (MCPU opts) FeaturesStr OLvl of
                 None \<Rightarrow> Inl (AssertionFailed, [request])
               | Some tm \<Rightarrow>
                 (case M of
                    None \<Rightarrow> Inl (AssertionFailed, [request])
                  | Some m \<Rightarrow>
                      Inr \<lparr>the_module = m, the_target = TheTarget, the_triple = TheTriple,
                           features_str = FeaturesStr, opt_level = OLvl,
                           the_machine = tm\<rparr>)))))"

subsection \<open>llc_main: output, run, metadata (lines 455-603)\<close>

text \<open>
  Lines 592-599. Line 593 builds the \<open>IntrinsicLowering\<close> on a reference to the
  target machine's data layout; it binds the reference and reads nothing through
  it, so with a null layout the driver goes on all the same. The call records the
  layout the lowering was built on, \<open>None\<close> for the null one.
\<close>

definition WriteMetadata ::
  "Library \<Rightarrow> Options \<Rightarrow> Configured \<Rightarrow> Event list \<Rightarrow> Outcome \<times> Event list" where
  "WriteMetadata lib opts cfg tr =
     (if MetadataTextFilename opts \<noteq> [] then
        (let tr' = tr @ [ModuleCall (IntrinsicLowering_AddPrototypes
                                       (getDataLayout (the_machine cfg)))];
             (err, ev) = WriteTextMetadataFile lib opts (the_module cfg) (module_ops tr')
                           (the_triple cfg)
         in if err \<noteq> 0 then (Exit err, tr' @ ev) else (Exit 0, tr' @ ev))
      else (Exit 0, tr))"

definition Generate :: "Library \<Rightarrow> Options \<Rightarrow> Configured \<Rightarrow> Outcome \<times> Event list" where
  "Generate lib opts cfg =
     (let request = CreateTargetMachine (the_triple cfg) (MCPU opts) (features_str cfg)
                      (opt_level cfg) in
      case GetOutputStream lib opts (getName (the_target cfg))
             (Triple_getOS lib (the_triple cfg)) of
        (None, ev) \<Rightarrow> (Exit 1, request # ev)
      | (Some Out, ev) \<Rightarrow>
        (case BuildAndRun lib opts (the_module cfg) (the_triple cfg) (the_machine cfg) of
           Inl ev' \<Rightarrow> (Exit 1, request # ev @ ev')
         | Inr ev' \<Rightarrow>
             WriteMetadata lib opts cfg (request # ev @ ev' @ [KeepFile CodeFile])))"

definition llc_main :: "Library \<Rightarrow> Options \<Rightarrow> Outcome \<times> Event list" where
  "llc_main lib opts =
     (case Configure lib opts of
        Inl r \<Rightarrow> r
      | Inr cfg \<Rightarrow> Generate lib opts cfg)"

subsection \<open>Reading a trace\<close>

fun is_pass_execution :: "Event \<Rightarrow> bool" where
  "is_pass_execution (ModuleCall (PassManager_run PM)) = True"
| "is_pass_execution (ModuleCall (FPM_doInitialization PM)) = True"
| "is_pass_execution (ModuleCall (FPM_run PM I)) = True"
| "is_pass_execution (ModuleCall (FPM_doFinalization PM)) = True"
| "is_pass_execution e = False"

fun creates_file :: "Event \<Rightarrow> bool" where
  "creates_file (OpenFile a name b) = True"
| "creates_file e = False"

fun commits_file :: "Event \<Rightarrow> bool" where
  "commits_file (KeepFile a) = True"
| "commits_file e = False"

fun is_metadata_event :: "Event \<Rightarrow> bool" where
  "is_metadata_event (OpenFile MetadataFile name b) = True"
| "is_metadata_event (WriteFile MetadataFile s) = True"
| "is_metadata_event (KeepFile MetadataFile) = True"
| "is_metadata_event e = False"

text \<open>The pass list a call on the module runs, if it runs one.\<close>

fun passes_run :: "ModuleOp \<Rightarrow> Pass list option" where
  "passes_run (PassManager_run PM) = Some PM"
| "passes_run (FPM_doInitialization PM) = Some PM"
| "passes_run (FPM_run PM I) = Some PM"
| "passes_run (FPM_doFinalization PM) = Some PM"
| "passes_run c = None"

subsection \<open>An example world\<close>

text \<open>
  The options as \<open>cl::init\<close> leaves them, and a small library: one input file,
  \<open>add.ll\<close>, with two functions; a backend for x86-64 and one for PowerPC; a
  feature string that joins the entries with commas, where the default features
  of an Apple PowerPC triple are \<open>+altivec\<close>; a directory \<open>/ro\<close> in which no
  file can be created; object files that the backend does not emit.
\<close>

definition initial_Options :: Options where
  "initial_Options =
     \<lparr>ProgName = ''llc'', InputFilename = ''-'', OutputFilename = [],
      MetadataTextFilename = [], OptLevel = CHR '' '', TargetTriple = [],
      NoVerify = False, DisableSimplifyLibCalls = False, LazyBitcode = False,
      ReduceMemoryFootprint = False, MArch = [], MCPU = [], MAttrs = [],
      FileType = CGFT_AssemblyFile, StartAfter = [], StopAfter = []\<rparr>"

definition example_Module :: Module where
  "example_Module =
     \<lparr>ModuleTriple = ''x86_64-unknown-linux-gnu'', ModuleDataLayout = ''e-p:64:64'',
      ModuleFunctions = [''add'', ''main'']\<rparr>"

fun example_entry :: "FeatureCall \<Rightarrow> string list" where
  "example_entry (getDefaultSubtargetFeatures t) =
     (if prefix ''powerpc-apple'' t then [''+altivec''] else [])"
| "example_entry (AddFeature s) =
     (case s of
        [] \<Rightarrow> []
      | c # r \<Rightarrow> (if c = CHR ''+'' \<or> c = CHR ''-'' then [s] else [CHR ''+'' # s]))"

fun example_join :: "string list \<Rightarrow> string" where
  "example_join [] = []"
| "example_join [x] = x"
| "example_join (x # y # r) = x @ '','' @ example_join (y # r)"

definition example_Library :: Library where
  "example_Library =
     \<lparr>getDataFileStreamer =
        (\<lambda>name. if name = ''add.ll'' then (Some 0, []) else (None, ''cannot open'')),
      getStreamedBitcodeModule = (\<lambda>name streamer err. (Some example_Module, err)),
      ParseIRFile =
        (\<lambda>name. if name = ''add.ll'' then (Some example_Module, [])
                 else (None, ''cannot open'')),
      Triple_normalize = (\<lambda>t. t),
      getDefaultTargetTriple = ''x86_64-unknown-linux-gnu'',
      lookupTarget =
        (\<lambda>arch t. if prefix ''x86_64'' t then Inr (\<lparr>getName = ''x86-64''\<rparr>, t)
                   else if prefix ''powerpc'' t then Inr (\<lparr>getName = ''ppc32''\<rparr>, t)
                   else Inl ''No available targets are compatible with this triple''),
      Triple_getOS = (\<lambda>t. OtherOS 0),
      Features_getString = (\<lambda>calls. example_join (concat (map example_entry calls))),
      createTargetMachine =
        (\<lambda>T t cpu fs lvl.
           Some \<lparr>getDataLayout = Some ''e-p:64:64'', TransformInfo = 0, MachineHandle = 0\<rparr>),
      OpenError =
        (\<lambda>name. if prefix ''/ro/'' name then ''Permission denied'' else []),
      getPassInfo = (\<lambda>name. None),
      addPassesToEmitFile =
        (\<lambda>tm kind ft noverify startAfter stopAfter.
           if ft = CGFT_ObjectFile then None else Some [BackendPass 0, BackendPass 1]),
      MakeAllStubs = (\<lambda>m calls t. [ELFStub 0, ELFStub 1]),
      WriteTextELFStub =
        (\<lambda>stub s. case stub of ELFStub n \<Rightarrow>
           s @ (if n = 0 then ''NEEDED libm'' else ''SYMBOL add'') @ newline)\<rparr>"

definition example_Options :: Options where
  "example_Options = initial_Options\<lparr>InputFilename := ''add.ll''\<rparr>"


subsection \<open>The target-machine request of a configured invocation\<close>

definition request_of :: "Options \<Rightarrow> Configured \<Rightarrow> Event" where
  "request_of opts cfg =
     CreateTargetMachine (the_triple cfg) (MCPU opts) (features_str cfg) (opt_level cfg)"

subsection \<open>The feature set as the specification words it\<close>

text \<open>
  Modelled from the spec: the class \<open>SubtargetFeatures\<close> (its \<open>AddFeature\<close>,
  \<open>getDefaultSubtargetFeatures\<close> and \<open>getString\<close>) is not in llc.cpp, which
  only calls it. Sections 3 and 4.1 of the specification describe the feature
  flags as a set of strings: assembly begins from the default feature set of the
  target and applies the user's toggles in the order given, a later one
  overriding an earlier one. \<open>reading\<close> is how a user string is read as a toggle
  (the feature's name, and whether it is switched on); \<open>defaults\<close> is the default
  feature set of a triple; \<open>render\<close> is how the library writes a feature set as
  the feature string. The three are parameters: the specification fixes none of
  them. \<open>sign_reading\<close> is the usual reading of \<open>+name\<close>, \<open>-name\<close> and
  \<open>name\<close>.
\<close>

definition spec_apply ::
  "(string \<Rightarrow> string \<times> bool) \<Rightarrow> (Triple \<Rightarrow> string set) \<Rightarrow> string set \<Rightarrow> FeatureCall \<Rightarrow> string set" where
  "spec_apply reading defaults S c =
     (case c of
        getDefaultSubtargetFeatures t \<Rightarrow> S \<union> defaults t
      | AddFeature s \<Rightarrow>
          (if snd (reading s) then insert (fst (reading s)) S else S - {fst (reading s)}))"

definition spec_feature_set ::
  "(string \<Rightarrow> string \<times> bool) \<Rightarrow> (Triple \<Rightarrow> string set) \<Rightarrow> FeatureCall list \<Rightarrow> string set" where
  "spec_feature_set reading defaults calls = foldl (spec_apply reading defaults) {} calls"

definition spec_Library ::
  "(string \<Rightarrow> string \<times> bool) \<Rightarrow> (Triple \<Rightarrow> string set) \<Rightarrow> (string set \<Rightarrow> string) \<Rightarrow>
     Library \<Rightarrow> Library" where
  "spec_Library reading defaults render lib =
     lib\<lparr>Features_getString := (\<lambda>calls. render (spec_feature_set reading defaults calls))\<rparr>"

definition sign_reading :: "string \<Rightarrow> string \<times> bool" where
  "sign_reading s =
     (case s of
        [] \<Rightarrow> ([], True)
      | c # r \<Rightarrow> (if c = CHR ''-'' then (r, False)
                  else if c = CHR ''+'' then (r, True)
                  else (s, True)))"

text \<open>
  Modelled from the spec: what it is for later flags to override the defaults and
  earlier flags (section 4.1). Of the user's strings that name the feature \<open>n\<close>,
  the last one decides whether \<open>n\<close> is on; \<open>None\<close> when no string names it,
  and then the defaults decide.
\<close>

definition last_toggle :: "(string \<Rightarrow> string \<times> bool) \<Rightarrow> string \<Rightarrow> string list \<Rightarrow> bool option" where
  "last_toggle reading n attrs =
     (let named = filter (\<lambda>s. fst (reading s) = n) attrs
      in if named = [] then None else Some (snd (reading (last named))))"

text \<open>
  A feature set for the example world: AltiVec is on by default on an Apple
  PowerPC triple, and the feature string tells of AltiVec and of the FPU.
\<close>

definition example_defaults :: "Triple \<Rightarrow> string set" where
  "example_defaults t = (if prefix ''powerpc-apple'' t then {''altivec''} else {})"

definition example_render :: "string set \<Rightarrow> string" where
  "example_render S =
     (if ''altivec'' \<in> S then ''+altivec'' else ''-altivec'') @ '','' @
     (if ''fpu'' \<in> S then ''+fpu'' else ''-fpu'')"


section \<open>Output name resolution\<close>










section \<open>The paths through llc_main\<close>

lemma Configure_Inl:
  assumes "Configure lib opts = Inl (out, tr)"
  shows "(out = Exit 1 \<or> out = AssertionFailed) \<and>
         (\<forall>e\<in>set tr. \<not> is_pass_execution e \<and> \<not> creates_file e \<and> \<not> commits_file e \<and>
                      \<not> is_metadata_event e)"
  using assms
  by (auto simp: Configure_def ResolveModuleAndTriple_def Let_def
           split: sum.splits option.splits prod.splits if_splits)

lemma Configure_Inr:
  assumes "Configure lib opts = Inr cfg"
  shows "ParseOptLevel (OptLevel opts) = Some (opt_level cfg)"
    and "features_str cfg = PackageFeatures lib (the_triple cfg) (MAttrs opts)"
    and "createTargetMachine lib (the_target cfg) (the_triple cfg) (MCPU opts)
           (features_str cfg) (opt_level cfg) = Some (the_machine cfg)"
  using assms
  by (auto simp: Configure_def Let_def
           split: sum.splits option.splits prod.splits if_splits)

lemma Configure_requests:
  assumes "Configure lib opts = Inl (out, tr)" "CreateTargetMachine t c f l \<in> set tr"
  shows "ParseOptLevel (OptLevel opts) = Some l \<and> f = PackageFeatures lib t (MAttrs opts)"
  using assms
  by (auto simp: Configure_def ResolveModuleAndTriple_def Let_def
           split: sum.splits option.splits prod.splits if_splits)

lemma module_ops_simps [simp]:
  "module_ops [] = []"
  "module_ops (ModuleCall c # tr) = c # module_ops tr"
  "module_ops (Errs s # tr) = module_ops tr"
  "module_ops (SMDiagnostic_print p s # tr) = module_ops tr"
  "module_ops (CreateTargetMachine t cpu f l # tr) = module_ops tr"
  "module_ops (OpenFile a n b # tr) = module_ops tr"
  "module_ops (WriteFile a s # tr) = module_ops tr"
  "module_ops (KeepFile a # tr) = module_ops tr"
  "module_ops (tr @ tr') = module_ops tr @ module_ops tr'"
  "module_ops (map ModuleCall cs) = cs"
  by (simp_all add: module_ops_def) (induction cs, simp_all)

lemma Configure_Inl_module_ops:
  assumes "Configure lib opts = Inl (out, tr)"
  shows "module_ops tr = []"
  using assms
  by (auto simp: Configure_def ResolveModuleAndTriple_def Let_def
           split: sum.splits option.splits prod.splits if_splits)

lemma Generate_cases [consumes 0, case_names no_output no_pipeline metadata_error written no_metadata]:
  obtains
    (no_output) err where
      "OpenError lib (MakeOutputFilename opts (getName (the_target cfg)) (Triple_getOS lib (the_triple cfg))) \<noteq> []"
      "Generate lib opts cfg = (Exit 1, [request_of opts cfg, Errs err])"
  | (no_pipeline) msg where
      "BuildAndRun lib opts (the_module cfg) (the_triple cfg) (the_machine cfg) = Inl [Errs msg]"
      "Generate lib opts cfg =
         (Exit 1, [request_of opts cfg,
                   OpenFile CodeFile (MakeOutputFilename opts (getName (the_target cfg)) (Triple_getOS lib (the_triple cfg)))
                     (NeedBinary (FileType opts)), Errs msg])"
  | (metadata_error) ops err where
      "BuildAndRun lib opts (the_module cfg) (the_triple cfg) (the_machine cfg) = Inr (map ModuleCall ops)"
      "MetadataTextFilename opts \<noteq> []"
      "OpenError lib (MetadataTextFilename opts) \<noteq> []"
      "Generate lib opts cfg =
         (Exit 1, [request_of opts cfg,
                   OpenFile CodeFile (MakeOutputFilename opts (getName (the_target cfg)) (Triple_getOS lib (the_triple cfg)))
                     (NeedBinary (FileType opts))] @ map ModuleCall ops @
                  [KeepFile CodeFile,
                   ModuleCall (IntrinsicLowering_AddPrototypes (getDataLayout (the_machine cfg))),
                   Errs err])"
  | (written) ops where
      "BuildAndRun lib opts (the_module cfg) (the_triple cfg) (the_machine cfg) = Inr (map ModuleCall ops)"
      "MetadataTextFilename opts \<noteq> []"
      "OpenError lib (MetadataTextFilename opts) = []"
      "Generate lib opts cfg =
         (Exit 0, [request_of opts cfg,
                   OpenFile CodeFile (MakeOutputFilename opts (getName (the_target cfg)) (Triple_getOS lib (the_triple cfg)))
                     (NeedBinary (FileType opts))] @ map ModuleCall ops @
                  [KeepFile CodeFile,
                   ModuleCall (IntrinsicLowering_AddPrototypes (getDataLayout (the_machine cfg))),
                   OpenFile MetadataFile (MetadataTextFilename opts) True,
                   WriteFile MetadataFile
                     (StubText lib (MakeAllStubs lib (the_module cfg)
                        (ops @ [IntrinsicLowering_AddPrototypes (getDataLayout (the_machine cfg))])
                        (the_triple cfg))),
                   KeepFile MetadataFile])"
  | (no_metadata) ops where
      "BuildAndRun lib opts (the_module cfg) (the_triple cfg) (the_machine cfg) = Inr (map ModuleCall ops)"
      "MetadataTextFilename opts = []"
      "Generate lib opts cfg =
         (Exit 0, [request_of opts cfg,
                   OpenFile CodeFile (MakeOutputFilename opts (getName (the_target cfg)) (Triple_getOS lib (the_triple cfg)))
                     (NeedBinary (FileType opts))] @ map ModuleCall ops @ [KeepFile CodeFile])"
proof -
  let ?name = "MakeOutputFilename opts (getName (the_target cfg)) (Triple_getOS lib (the_triple cfg))"
  show ?thesis
  proof (cases "OpenError lib ?name = []")
    case False
    then show ?thesis
      by (intro no_output[of "OpenError lib ?name @ newline"])
         (simp_all add: Generate_def GetOutputStream_def Let_def request_of_def)
  next
    case opened: True
    show ?thesis
    proof (cases "BuildAndRun lib opts (the_module cfg) (the_triple cfg) (the_machine cfg)")
      case (Inl ev)
      then obtain msg where "ev = [Errs msg]"
        by (auto simp: BuildAndRun_def Let_def split: option.splits)
      with Inl opened show ?thesis
        by (intro no_pipeline[of msg])
           (simp_all add: Generate_def GetOutputStream_def Let_def request_of_def)
    next
      case (Inr ev)
      then obtain ops where ev: "ev = map ModuleCall ops"
        by (auto simp: BuildAndRun_def Let_def split: option.splits)
      show ?thesis
      proof (cases "MetadataTextFilename opts = []")
        case True
        with Inr opened ev show ?thesis
          by (intro no_metadata[of ops])
             (simp_all add: Generate_def GetOutputStream_def Let_def request_of_def WriteMetadata_def)
      next
        case req: False
        show ?thesis
        proof (cases "OpenError lib (MetadataTextFilename opts) = []")
          case True
          with Inr opened ev req show ?thesis
            by (intro written[of ops])
               (simp_all add: Generate_def GetOutputStream_def Let_def request_of_def
                  WriteMetadata_def WriteTextMetadataFile_def)
        next
          case False
          with Inr opened ev req show ?thesis
            by (intro metadata_error[of ops "OpenError lib (MetadataTextFilename opts) @ newline"])
               (simp_all add: Generate_def GetOutputStream_def Let_def request_of_def
                  WriteMetadata_def WriteTextMetadataFile_def)
        qed
      qed
    qed
  qed
qed

lemma BuildAndRun_Inr:
  assumes "BuildAndRun lib opts m T tm = Inr ev"
  shows "\<exists>backend sa so.
           LookupPassID lib (StartAfter opts) = Some sa \<and>
           LookupPassID lib (StopAfter opts) = Some so \<and>
           addPassesToEmitFile lib tm (manager_kind opts) (FileType opts) (NoVerify opts) sa so
             = Some backend \<and>
           ev = map ModuleCall (RunPipeline opts m (InitialPasses opts m T tm @ backend))"
proof -
  from assms obtain backend sa so where
    "LookupPassID lib (StartAfter opts) = Some sa"
    "LookupPassID lib (StopAfter opts) = Some so"
    "addPassesToEmitFile lib tm (manager_kind opts) (FileType opts) (NoVerify opts) sa so
       = Some backend"
    "ev = map ModuleCall (RunPipeline opts m (InitialPasses opts m T tm @ backend))"
    by (auto simp: BuildAndRun_def Let_def split: option.splits)
  then show ?thesis by blast
qed

lemma BuildAndRun_declined:
  assumes "LookupPassID lib (StartAfter opts) = Some sa"
    and "LookupPassID lib (StopAfter opts) = Some so"
    and "addPassesToEmitFile lib tm (manager_kind opts) (FileType opts) (NoVerify opts) sa so
           = None"
  shows "\<exists>ev. BuildAndRun lib opts m T tm = Inl ev"
  using assms
  by (simp add: BuildAndRun_def Let_def)

lemma llc_main_Inl: "Configure lib opts = Inl r \<Longrightarrow> llc_main lib opts = r"
  by (simp add: llc_main_def)

lemma llc_main_Inr: "Configure lib opts = Inr cfg \<Longrightarrow> llc_main lib opts = Generate lib opts cfg"
  by (simp add: llc_main_def)

lemma ParseOptLevel_None:
  "c \<notin> {CHR '' '', CHR ''0'', CHR ''1'', CHR ''2'', CHR ''3''} \<Longrightarrow> ParseOptLevel c = None"
  by (simp add: ParseOptLevel_def)

lemma request_of_eq [simp]:
  "(CreateTargetMachine t c f l = request_of opts cfg) \<longleftrightarrow>
     t = the_triple cfg \<and> c = MCPU opts \<and> f = features_str cfg \<and> l = opt_level cfg"
  "request_of opts cfg \<noteq> Errs s" "request_of opts cfg \<noteq> OpenFile a n b"
  "request_of opts cfg \<noteq> WriteFile a s" "request_of opts cfg \<noteq> KeepFile a"
  "request_of opts cfg \<noteq> ModuleCall mc"
  "\<not> is_pass_execution (request_of opts cfg)" "\<not> creates_file (request_of opts cfg)"
  "\<not> commits_file (request_of opts cfg)" "\<not> is_metadata_event (request_of opts cfg)"
  "module_ops (request_of opts cfg # tr) = module_ops tr"
  by (auto simp: request_of_def)

lemma request_in_Generate:
  assumes "CreateTargetMachine t c f l \<in> set (snd (Generate lib opts cfg))"
  shows "t = the_triple cfg \<and> f = features_str cfg \<and> l = opt_level cfg"
  using assms by (cases lib opts cfg rule: Generate_cases) auto

lemma request_in_llc_main:
  assumes "CreateTargetMachine t c f l \<in> set (snd (llc_main lib opts))"
  shows "ParseOptLevel (OptLevel opts) = Some l \<and> f = PackageFeatures lib t (MAttrs opts)"
proof (cases "Configure lib opts")
  case (Inl r)
  with assms show ?thesis
    using Configure_requests[of lib opts "fst r" "snd r" t c f l]
    by (simp add: llc_main_Inl)
next
  case (Inr cfg)
  with assms show ?thesis
    using request_in_Generate[of t c f l lib opts cfg] Configure_Inr[OF Inr]
    by (simp add: llc_main_Inr)
qed

section \<open>The per-function loop\<close>

lemma upt_split:
  assumes "[i..<n] = Is1 @ J # Is2"
  shows "Is1 = [i..<J] \<and> Is2 = [Suc J..<n] \<and> i \<le> J \<and> J < n"
proof -
  have len: "length Is1 + Suc (length Is2) = n - i"
    using arg_cong[OF assms, of length] by simp
  have J: "J = i + length Is1"
    using arg_cong[OF assms, of "\<lambda>xs. xs ! length Is1"] len by (simp add: nth_append)
  have "Is1 = take (length Is1) [i..<n]" using assms by simp
  also have "\<dots> = [i..<J]" using len J by (simp add: take_upt)
  finally have 1: "Is1 = [i..<J]" .
  have "J # Is2 = drop (length Is1) [i..<n]" using assms by simp
  also have "\<dots> = [J..<n]" using J by (simp add: drop_upt)
  finally have "J # Is2 = [J..<n]" .
  moreover have "J < n" using len J by simp
  ultimately have 2: "Is2 = [Suc J..<n]" by (simp add: upt_conv_Cons)
  from 1 2 J \<open>J < n\<close> show ?thesis by simp
qed

lemma run_functions_split:
  assumes "run_functions PM True Is = pre @ FPM_run PM' J # post"
  shows "\<exists>Is1 Is2. Is = Is1 @ J # Is2 \<and> pre = run_functions PM True Is1 \<and>
           post = Function_Dematerialize J # run_functions PM True Is2 \<and> PM' = PM"
  using assms
proof (induction Is arbitrary: pre)
  case Nil
  then show ?case by simp
next
  case (Cons I Is)
  show ?case
  proof (cases pre)
    case Nil
    with Cons.prems have "I # Is = [] @ J # Is \<and> pre = run_functions PM True [] \<and>
        post = Function_Dematerialize J # run_functions PM True Is \<and> PM' = PM"
      by auto
    then show ?thesis by blast
  next
    case c1: (Cons p pre1)
    with Cons.prems have p: "p = FPM_run PM I"
      and r1: "Function_Dematerialize I # run_functions PM True Is = pre1 @ FPM_run PM' J # post"
      by simp_all
    from r1 obtain pre2 where pre1: "pre1 = Function_Dematerialize I # pre2"
      and r2: "run_functions PM True Is = pre2 @ FPM_run PM' J # post"
      by (cases pre1) auto
    from Cons.IH[OF r2] obtain Is1 Is2 where
      "Is = Is1 @ J # Is2" "pre2 = run_functions PM True Is1"
      "post = Function_Dematerialize J # run_functions PM True Is2" "PM' = PM"
      by blast
    then have "I # Is = (I # Is1) @ J # Is2 \<and> pre = run_functions PM True (I # Is1) \<and>
           post = Function_Dematerialize J # run_functions PM True Is2 \<and> PM' = PM"
      using c1 p pre1 by simp
    then show ?thesis by blast
  qed
qed

lemma Dematerialize_in_run_functions:
  "Function_Dematerialize I \<in> set (run_functions PM True Is) \<longleftrightarrow> I \<in> set Is"
  by (induction Is) auto

lemma FPM_run_in_run_functions:
  "FPM_run PM' I \<in> set (run_functions PM r Is) \<longleftrightarrow> PM' = PM \<and> I \<in> set Is"
  by (induction Is) auto

lemma run_functions_concat:
  "run_functions PM True Is = concat (map (\<lambda>I. [FPM_run PM I, Function_Dematerialize I]) Is)"
  by (induction Is) auto

lemma mem_run_functions:
  "c \<in> set (run_functions PM r Is) \<Longrightarrow>
     (\<exists>I. c = FPM_run PM I) \<or> (\<exists>I. c = Function_Dematerialize I)"
  by (induction Is) (auto split: if_splits)

lemma passes_run_functions:
  assumes "c \<in> set (run_functions PM r Is)" "passes_run c = Some PM'"
  shows "PM' = PM"
  using mem_run_functions[OF assms(1)] assms(2) by auto

lemma passes_RunPipeline:
  assumes "c \<in> set (RunPipeline opts m PM)" "passes_run c = Some PM'"
  shows "PM' = PM"
proof (cases "LazyBitcode opts \<or> ReduceMemoryFootprint opts")
  case True
  with assms(1) have "c = FPM_doInitialization PM \<or> c = FPM_doFinalization PM \<or>
      c \<in> set (run_functions PM (ReduceMemoryFootprint opts) [0..<length (ModuleFunctions m)])"
    by (auto simp: RunPipeline_def)
  with assms(2) show ?thesis
    using passes_run_functions[of c PM _ _ PM'] by auto
next
  case False
  with assms show ?thesis by (simp add: RunPipeline_def)
qed

lemma append_split_left:
  assumes "xs @ ys = pre @ a # post" "a \<notin> set ys"
  shows "\<exists>post1. xs = pre @ a # post1 \<and> post = post1 @ ys"
proof -
  from assms(1) obtain us where
    "(xs = pre @ us \<and> us @ ys = a # post) \<or> (xs @ us = pre \<and> ys = us @ a # post)"
    by (auto simp: append_eq_append_conv2)
  then show ?thesis
  proof
    assume h: "xs = pre @ us \<and> us @ ys = a # post"
    show ?thesis
    proof (cases us)
      case Nil
      with h assms(2) show ?thesis by auto
    next
      case (Cons u us1)
      with h show ?thesis by auto
    qed
  next
    assume "xs @ us = pre \<and> ys = us @ a # post"
    with assms(2) show ?thesis by auto
  qed
qed

lemma is_pass_execution_iff:
  "is_pass_execution e \<longleftrightarrow> (\<exists>c PM. e = ModuleCall c \<and> passes_run c = Some PM)"
proof (cases e)
  case (ModuleCall c)
  then show ?thesis by (cases c) simp_all
qed simp_all

lemma Generate_module_ops:
  "module_ops (snd (Generate lib opts cfg)) = [] \<or>
   (\<exists>backend rest.
      module_ops (snd (Generate lib opts cfg)) =
        RunPipeline opts (the_module cfg)
          (InitialPasses opts (the_module cfg) (the_triple cfg) (the_machine cfg) @ backend) @ rest \<and>
      (rest = [] \<or> (\<exists>TD. rest = [IntrinsicLowering_AddPrototypes TD])))"
proof -
  have run: "\<exists>backend. ops = RunPipeline opts (the_module cfg)
          (InitialPasses opts (the_module cfg) (the_triple cfg) (the_machine cfg) @ backend)"
    if "BuildAndRun lib opts (the_module cfg) (the_triple cfg) (the_machine cfg)
          = Inr (map ModuleCall ops)" for ops
  proof -
    from BuildAndRun_Inr[OF that] obtain backend where
      "map ModuleCall ops = map ModuleCall (RunPipeline opts (the_module cfg)
          (InitialPasses opts (the_module cfg) (the_triple cfg) (the_machine cfg) @ backend))"
      by blast
    then have "ops = RunPipeline opts (the_module cfg)
          (InitialPasses opts (the_module cfg) (the_triple cfg) (the_machine cfg) @ backend)"
      by (simp add: inj_map_eq_map inj_on_def)
    then show ?thesis by blast
  qed
  show ?thesis
  proof (cases lib opts cfg rule: Generate_cases)
    case (no_output err)
    then show ?thesis by simp
  next
    case (no_pipeline msg)
    then show ?thesis by simp
  next
    case (metadata_error ops err)
    from run[OF metadata_error(1)] obtain backend where "ops = RunPipeline opts (the_module cfg)
          (InitialPasses opts (the_module cfg) (the_triple cfg) (the_machine cfg) @ backend)" ..
    then have "module_ops (snd (Generate lib opts cfg)) =
        RunPipeline opts (the_module cfg)
          (InitialPasses opts (the_module cfg) (the_triple cfg) (the_machine cfg) @ backend) @
        [IntrinsicLowering_AddPrototypes (getDataLayout (the_machine cfg))]"
      by (simp add: metadata_error)
    then show ?thesis by blast
  next
    case (written ops)
    from run[OF written(1)] obtain backend where "ops = RunPipeline opts (the_module cfg)
          (InitialPasses opts (the_module cfg) (the_triple cfg) (the_machine cfg) @ backend)" ..
    then have "module_ops (snd (Generate lib opts cfg)) =
        RunPipeline opts (the_module cfg)
          (InitialPasses opts (the_module cfg) (the_triple cfg) (the_machine cfg) @ backend) @
        [IntrinsicLowering_AddPrototypes (getDataLayout (the_machine cfg))]"
      by (simp add: written)
    then show ?thesis by blast
  next
    case (no_metadata ops)
    from run[OF no_metadata(1)] obtain backend where "ops = RunPipeline opts (the_module cfg)
          (InitialPasses opts (the_module cfg) (the_triple cfg) (the_machine cfg) @ backend)" ..
    then have "module_ops (snd (Generate lib opts cfg)) =
        RunPipeline opts (the_module cfg)
          (InitialPasses opts (the_module cfg) (the_triple cfg) (the_machine cfg) @ backend) @ []"
      by (simp add: no_metadata)
    then show ?thesis by blast
  qed
qed

lemma RunPipeline_nonempty: "RunPipeline opts m PM \<noteq> []"
  by (simp add: RunPipeline_def)

lemma committed_has_run:
  assumes "KeepFile CodeFile \<in> set (snd (llc_main lib opts))"
  shows "module_ops (snd (llc_main lib opts)) \<noteq> []"
proof (cases "Configure lib opts")
  case (Inl r)
  obtain out tr where r: "r = (out, tr)" by (cases r)
  from Configure_Inl[OF Inl[unfolded r]] have "\<forall>e\<in>set tr. \<not> commits_file e" by blast
  then have "KeepFile CodeFile \<notin> set tr" by force
  with assms show ?thesis by (simp add: llc_main_Inl[OF Inl] r)
next
  case (Inr cfg)
  have ne: "ops \<noteq> []"
    if "BuildAndRun lib opts (the_module cfg) (the_triple cfg) (the_machine cfg)
          = Inr (map ModuleCall ops)" for ops
  proof -
    from BuildAndRun_Inr[OF that] obtain backend where
      "map ModuleCall ops = map ModuleCall (RunPipeline opts (the_module cfg)
          (InitialPasses opts (the_module cfg) (the_triple cfg) (the_machine cfg) @ backend))"
      by blast
    then have "ops = RunPipeline opts (the_module cfg)
          (InitialPasses opts (the_module cfg) (the_triple cfg) (the_machine cfg) @ backend)"
      by (simp add: inj_map_eq_map inj_on_def)
    then show ?thesis by (simp add: RunPipeline_nonempty)
  qed
  from assms show ?thesis
    unfolding llc_main_Inr[OF Inr]
    by (cases lib opts cfg rule: Generate_cases) (auto simp: request_of_def dest: ne)
qed

lemma reduce_shape_split:
  assumes shape: "xs = FPM_doInitialization PM # run_functions PM True [0..<n] @
                       FPM_doFinalization PM # rest"
    and rest: "rest = [] \<or> (\<exists>TD. rest = [IntrinsicLowering_AddPrototypes TD])"
    and split: "xs = pre @ FPM_run PM' J # post"
  shows "(\<exists>post'. post = Function_Dematerialize J # post') \<and>
         {I. Function_Dematerialize I \<in> set pre} = {I. I < J} \<and>
         {I. FPM_run PM' I \<in> set pre} = {I. I < J} \<and> J < n \<and> PM' = PM"
proof -
  from shape split obtain pre1 where pre: "pre = FPM_doInitialization PM # pre1"
    and s1: "run_functions PM True [0..<n] @ FPM_doFinalization PM # rest
               = pre1 @ FPM_run PM' J # post"
    by (cases pre) auto
  have "FPM_run PM' J \<notin> set (FPM_doFinalization PM # rest)"
    using rest by auto
  from append_split_left[OF s1 this] obtain post1 where
    rf: "run_functions PM True [0..<n] = pre1 @ FPM_run PM' J # post1"
    and post: "post = post1 @ FPM_doFinalization PM # rest"
    by blast
  from run_functions_split[OF rf] obtain Is1 Is2 where
    upt: "[0..<n] = Is1 @ J # Is2" and pre1: "pre1 = run_functions PM True Is1"
    and post1: "post1 = Function_Dematerialize J # run_functions PM True Is2" and PM: "PM' = PM"
    by blast
  from upt_split[OF upt] have Is1: "Is1 = [0..<J]" and Jn: "J < n" by simp_all
  have d: "{I. Function_Dematerialize I \<in> set pre} = {I. I < J}"
    by (auto simp: pre pre1 Is1 Dematerialize_in_run_functions)
  have r: "{I. FPM_run PM' I \<in> set pre} = {I. I < J}"
    by (auto simp: pre pre1 Is1 PM FPM_run_in_run_functions)
  from post post1 d r Jn PM show ?thesis by simp
qed

section \<open>Runs of the example world\<close>

lemmas run_defs =
  llc_main_def Configure_def Generate_def WriteMetadata_def WriteTextMetadataFile_def
  BuildAndRun_def RunPipeline_def LookupPassID_def InitialPasses_def manager_kind_def
  GetOutputStream_def MakeOutputFilename_def NeedBinary_def ParseOptLevel_def
  PackageFeatures_def ResolveModuleAndTriple_def LoadModule_def SkipModule_def
  DefaultIfEmpty_def module_ops_def StubText_def newline_def GetFileNameRoot_def
  OutputExtension_def c_str_at_def size_to_int_def upt_rec Let_def
  example_Library_def example_Options_def initial_Options_def example_Module_def

lemma example_run:
  "llc_main example_Library example_Options =
     (Exit 0,
      [CreateTargetMachine ''x86_64-unknown-linux-gnu'' [] [] CodeGenOpt_Default,
       OpenFile CodeFile ''add.s'' False,
       ModuleCall (PassManager_run
         [TargetLibraryInfo ''x86_64-unknown-linux-gnu'' False, TargetTransformInfo 0,
          DataLayoutOfTarget ''e-p:64:64'', BackendPass 0, BackendPass 1]),
       KeepFile CodeFile])"
  by (simp add: run_defs)

lemma example_O9:
  "llc_main example_Library (example_Options\<lparr>OptLevel := CHR ''9''\<rparr>) =
     (Exit 1, [Errs ''llc: invalid optimization level.\<newline>''])"
  by (simp add: run_defs)

lemma example_O_space:
  "llc_main example_Library (example_Options\<lparr>OptLevel := CHR '' ''\<rparr>) =
     (Exit 0,
      [CreateTargetMachine ''x86_64-unknown-linux-gnu'' [] [] CodeGenOpt_Default,
       OpenFile CodeFile ''add.s'' False,
       ModuleCall (PassManager_run
         [TargetLibraryInfo ''x86_64-unknown-linux-gnu'' False, TargetTransformInfo 0,
          DataLayoutOfTarget ''e-p:64:64'', BackendPass 0, BackendPass 1]),
       KeepFile CodeFile])"
  by (simp add: run_defs)

lemma example_O3:
  "llc_main example_Library (example_Options\<lparr>OptLevel := CHR ''3''\<rparr>) =
     (Exit 0,
      [CreateTargetMachine ''x86_64-unknown-linux-gnu'' [] [] CodeGenOpt_Aggressive,
       OpenFile CodeFile ''add.s'' False,
       ModuleCall (PassManager_run
         [TargetLibraryInfo ''x86_64-unknown-linux-gnu'' False, TargetTransformInfo 0,
          DataLayoutOfTarget ''e-p:64:64'', BackendPass 0, BackendPass 1]),
       KeepFile CodeFile])"
  by (simp add: run_defs)

lemma example_metadata:
  "llc_main example_Library (example_Options\<lparr>MetadataTextFilename := ''deps.txt''\<rparr>) =
     (Exit 0,
      [CreateTargetMachine ''x86_64-unknown-linux-gnu'' [] [] CodeGenOpt_Default,
       OpenFile CodeFile ''add.s'' False,
       ModuleCall (PassManager_run
         [TargetLibraryInfo ''x86_64-unknown-linux-gnu'' False, TargetTransformInfo 0,
          DataLayoutOfTarget ''e-p:64:64'', BackendPass 0, BackendPass 1]),
       KeepFile CodeFile,
       ModuleCall (IntrinsicLowering_AddPrototypes (Some ''e-p:64:64'')),
       OpenFile MetadataFile ''deps.txt'' True,
       WriteFile MetadataFile ''NEEDED libm\<newline>SYMBOL add\<newline>'',
       KeepFile MetadataFile])"
  by (simp add: run_defs)

lemma example_metadata_fails:
  "llc_main example_Library (example_Options\<lparr>MetadataTextFilename := ''/ro/deps.txt''\<rparr>) =
     (Exit 1,
      [CreateTargetMachine ''x86_64-unknown-linux-gnu'' [] [] CodeGenOpt_Default,
       OpenFile CodeFile ''add.s'' False,
       ModuleCall (PassManager_run
         [TargetLibraryInfo ''x86_64-unknown-linux-gnu'' False, TargetTransformInfo 0,
          DataLayoutOfTarget ''e-p:64:64'', BackendPass 0, BackendPass 1]),
       KeepFile CodeFile,
       ModuleCall (IntrinsicLowering_AddPrototypes (Some ''e-p:64:64'')),
       Errs ''Permission denied\<newline>''])"
  by (simp add: run_defs)

lemma example_bogus:
  "llc_main example_Library (example_Options\<lparr>TargetTriple := ''bogus-unknown-unknown''\<rparr>) =
     (Exit 1, [Errs ''llc: No available targets are compatible with this triple''])"
  by (simp add: run_defs)

lemma example_bogus_triple:
  "ResolveModuleAndTriple example_Library
     (example_Options\<lparr>TargetTriple := ''bogus-unknown-unknown''\<rparr>) =
     Inr (Some (example_Module\<lparr>ModuleTriple := ''bogus-unknown-unknown''\<rparr>),
          ''bogus-unknown-unknown'')"
  by (simp add: run_defs)

lemma example_object:
  "llc_main example_Library (example_Options\<lparr>FileType := CGFT_ObjectFile\<rparr>) =
     (Exit 1,
      [CreateTargetMachine ''x86_64-unknown-linux-gnu'' [] [] CodeGenOpt_Default,
       OpenFile CodeFile ''add.o'' True,
       Errs ''llc: target does not support generation of this file type!\<newline>''])"
  by (simp add: run_defs)

lemma example_object_Configure:
  "Configure example_Library (example_Options\<lparr>FileType := CGFT_ObjectFile\<rparr>) =
     Inr \<lparr>the_module = example_Module, the_target = \<lparr>getName = ''x86-64''\<rparr>,
          the_triple = ''x86_64-unknown-linux-gnu'', features_str = [],
          opt_level = CodeGenOpt_Default,
          the_machine = \<lparr>getDataLayout = Some ''e-p:64:64'', TransformInfo = 0,
                          MachineHandle = 0\<rparr>\<rparr>"
  by (simp add: run_defs)

lemma example_reduce:
  "module_ops (snd (llc_main example_Library
      (example_Options\<lparr>ReduceMemoryFootprint := True\<rparr>))) =
     [FPM_doInitialization
        [TargetLibraryInfo ''x86_64-unknown-linux-gnu'' False, TargetTransformInfo 0,
         DataLayoutOfTarget ''e-p:64:64'', BackendPass 0, BackendPass 1],
      FPM_run
        [TargetLibraryInfo ''x86_64-unknown-linux-gnu'' False, TargetTransformInfo 0,
         DataLayoutOfTarget ''e-p:64:64'', BackendPass 0, BackendPass 1] 0,
      Function_Dematerialize 0,
      FPM_run
        [TargetLibraryInfo ''x86_64-unknown-linux-gnu'' False, TargetTransformInfo 0,
         DataLayoutOfTarget ''e-p:64:64'', BackendPass 0, BackendPass 1] 1,
      Function_Dematerialize 1,
      FPM_doFinalization
        [TargetLibraryInfo ''x86_64-unknown-linux-gnu'' False, TargetTransformInfo 0,
         DataLayoutOfTarget ''e-p:64:64'', BackendPass 0, BackendPass 1]]"
  by (simp add: run_defs)

lemma example_powerpc:
  "llc_main example_Library (example_Options\<lparr>TargetTriple := ''powerpc-apple-darwin9''\<rparr>) =
     (Exit 0,
      [CreateTargetMachine ''powerpc-apple-darwin9'' [] [] CodeGenOpt_Default,
       OpenFile CodeFile ''add.s'' False,
       ModuleCall (PassManager_run
         [TargetLibraryInfo ''powerpc-apple-darwin9'' False, TargetTransformInfo 0,
          DataLayoutOfTarget ''e-p:64:64'', BackendPass 0, BackendPass 1]),
       KeepFile CodeFile])"
  by (simp add: run_defs)

lemma example_altivec:
  "llc_main example_Library
     (example_Options\<lparr>TargetTriple := ''powerpc-apple-darwin9'', MAttrs := [''-altivec'']\<rparr>) =
     (Exit 0,
      [CreateTargetMachine ''powerpc-apple-darwin9'' [] ''+altivec,-altivec'' CodeGenOpt_Default,
       OpenFile CodeFile ''add.s'' False,
       ModuleCall (PassManager_run
         [TargetLibraryInfo ''powerpc-apple-darwin9'' False, TargetTransformInfo 0,
          DataLayoutOfTarget ''e-p:64:64'', BackendPass 0, BackendPass 1]),
       KeepFile CodeFile])"
  by (simp add: run_defs)

lemma example_override:
  "llc_main (spec_Library sign_reading example_defaults example_render example_Library)
     (example_Options\<lparr>TargetTriple := ''powerpc-apple-darwin9'',
                      MAttrs := [''+fpu'', ''-altivec'', ''-fpu'']\<rparr>) =
     (Exit 0,
      [CreateTargetMachine ''powerpc-apple-darwin9'' [] ''-altivec,-fpu'' CodeGenOpt_Default,
       OpenFile CodeFile ''add.s'' False,
       ModuleCall (PassManager_run
         [TargetLibraryInfo ''powerpc-apple-darwin9'' False, TargetTransformInfo 0,
          DataLayoutOfTarget ''e-p:64:64'', BackendPass 0, BackendPass 1]),
       KeepFile CodeFile])"
  by (simp add: run_defs spec_Library_def spec_feature_set_def spec_apply_def sign_reading_def
        example_defaults_def example_render_def)

lemma example_help:
  "llc_main example_Library (example_Options\<lparr>MCPU := ''help''\<rparr>) =
     (AssertionFailed,
      [CreateTargetMachine ''x86_64-unknown-linux-gnu'' ''help'' [] CodeGenOpt_Default])"
  by (simp add: run_defs)

lemma example_no_layout:
  "llc_main
     (example_Library\<lparr>createTargetMachine := (\<lambda>T t cpu fs lvl.
        Some \<lparr>getDataLayout = None, TransformInfo = 0, MachineHandle = 0\<rparr>)\<rparr>)
     (example_Options\<lparr>MetadataTextFilename := ''deps.txt''\<rparr>) =
     (Exit 0,
      [CreateTargetMachine ''x86_64-unknown-linux-gnu'' [] [] CodeGenOpt_Default,
       OpenFile CodeFile ''add.s'' False,
       ModuleCall (PassManager_run
         [TargetLibraryInfo ''x86_64-unknown-linux-gnu'' False, TargetTransformInfo 0,
          DataLayoutOfModule ''e-p:64:64'', BackendPass 0, BackendPass 1]),
       KeepFile CodeFile,
       ModuleCall (IntrinsicLowering_AddPrototypes None),
       OpenFile MetadataFile ''deps.txt'' True,
       WriteFile MetadataFile ''NEEDED libm\<newline>SYMBOL add\<newline>'',
       KeepFile MetadataFile])"
  by (simp add: run_defs)

section \<open>Optimization level\<close>

text \<open>
  C8, as amended. The codes \<open>0\<close>, \<open>1\<close>, \<open>2\<close>, \<open>3\<close> are read as the levels None,
  Less, Default, Aggressive, and the level read is the one the target machine is
  requested with. The space, which is the value of an absent \<open>-O\<close>, is
  accepted and selects Default. For every character other than these five, the
  invocation returns 1, and no pass has run and no file has been opened.
\<close>

theorem optimization_level_parsing:
  "ParseOptLevel (CHR ''0'') = Some CodeGenOpt_None \<and>
   ParseOptLevel (CHR ''1'') = Some CodeGenOpt_Less \<and>
   ParseOptLevel (CHR ''2'') = Some CodeGenOpt_Default \<and>
   ParseOptLevel (CHR ''3'') = Some CodeGenOpt_Aggressive \<and>
   ParseOptLevel (CHR '' '') = Some CodeGenOpt_Default \<and>
   (\<forall>t cpu f l. CreateTargetMachine t cpu f l \<in> set (snd (llc_main lib opts)) \<longrightarrow>
      ParseOptLevel (OptLevel opts) = Some l) \<and>
   (OptLevel opts \<notin> {CHR '' '', CHR ''0'', CHR ''1'', CHR ''2'', CHR ''3''} \<longrightarrow>
      fst (llc_main lib opts) = Exit 1 \<and>
      (\<forall>e\<in>set (snd (llc_main lib opts)). \<not> is_pass_execution e \<and> \<not> creates_file e))"
proof -
  have levels: "ParseOptLevel (CHR ''0'') = Some CodeGenOpt_None"
    "ParseOptLevel (CHR ''1'') = Some CodeGenOpt_Less"
    "ParseOptLevel (CHR ''2'') = Some CodeGenOpt_Default"
    "ParseOptLevel (CHR ''3'') = Some CodeGenOpt_Aggressive"
    "ParseOptLevel (CHR '' '') = Some CodeGenOpt_Default"
    by (simp_all add: ParseOptLevel_def)
  have passed: "\<forall>t cpu f l. CreateTargetMachine t cpu f l \<in> set (snd (llc_main lib opts)) \<longrightarrow>
      ParseOptLevel (OptLevel opts) = Some l"
    using request_in_llc_main by blast
  have invalid: "fst (llc_main lib opts) = Exit 1 \<and>
      (\<forall>e\<in>set (snd (llc_main lib opts)). \<not> is_pass_execution e \<and> \<not> creates_file e)"
    if bad: "OptLevel opts \<notin> {CHR '' '', CHR ''0'', CHR ''1'', CHR ''2'', CHR ''3''}"
  proof -
    have none: "ParseOptLevel (OptLevel opts) = None"
      using bad by (rule ParseOptLevel_None)
    then have "\<exists>ev. Configure lib opts = Inl (Exit 1, ev)"
      by (simp add: Configure_def Let_def split: sum.splits prod.splits)
    then obtain ev where c: "Configure lib opts = Inl (Exit 1, ev)" ..
    from Configure_Inl[OF c] c show ?thesis
      by (simp add: llc_main_Inl)
  qed
  from levels passed invalid show ?thesis by blast
qed

theorem optimization_level_parsing_witness:
  "OptLevel (example_Options\<lparr>OptLevel := CHR ''9''\<rparr>)
     \<notin> {CHR '' '', CHR ''0'', CHR ''1'', CHR ''2'', CHR ''3''} \<and>
   llc_main example_Library (example_Options\<lparr>OptLevel := CHR ''9''\<rparr>) =
     (Exit 1, [Errs ''llc: invalid optimization level.\<newline>'']) \<and>
   CreateTargetMachine ''x86_64-unknown-linux-gnu'' [] [] CodeGenOpt_Aggressive
     \<in> set (snd (llc_main example_Library (example_Options\<lparr>OptLevel := CHR ''3''\<rparr>))) \<and>
   ParseOptLevel (OptLevel (example_Options\<lparr>OptLevel := CHR ''3''\<rparr>))
     = Some CodeGenOpt_Aggressive"
  using optimization_level_parsing[of example_Library "example_Options\<lparr>OptLevel := CHR ''9''\<rparr>"]
        optimization_level_parsing[of example_Library "example_Options\<lparr>OptLevel := CHR ''3''\<rparr>"]
  by (simp add: example_O9 example_O3)


text \<open>
  The claim as stated, for every character other than the four codes, fails at the
  space: the invocation succeeds and runs its passes.
\<close>

theorem optimization_level_space_counterexample:
  "OptLevel (example_Options\<lparr>OptLevel := CHR '' ''\<rparr>) = CHR '' '' \<and>
   CHR '' '' \<notin> {CHR ''0'', CHR ''1'', CHR ''2'', CHR ''3''} \<and>
   fst (llc_main example_Library (example_Options\<lparr>OptLevel := CHR '' ''\<rparr>)) = Exit 0 \<and>
   (\<exists>e\<in>set (snd (llc_main example_Library (example_Options\<lparr>OptLevel := CHR '' ''\<rparr>))).
      is_pass_execution e)"
  by (simp add: example_O_space)

section \<open>Exit code and committed artifacts\<close>

text \<open>
  C2, as amended. An invocation that returns from \<open>llc_main\<close> returns 0 or 1.
  When it returns 0 the compiled-code file is committed and, when a metadata file
  is requested, so is the metadata file. When it returns 1 the metadata file is
  not committed; the compiled-code file is committed only when a metadata file was
  requested and could not be opened, because the driver commits the compiled code
  before it writes the metadata. An invocation that stops at an assertion has
  opened and committed nothing. When the target lookup fails, the invocation
  returns 1 and no file is opened or committed.
\<close>

theorem exit_code_and_commits:
  "(\<forall>c. fst (llc_main lib opts) = Exit c \<longrightarrow> c = 0 \<or> c = 1) \<and>
   (fst (llc_main lib opts) = Exit 0 \<longrightarrow>
      KeepFile CodeFile \<in> set (snd (llc_main lib opts)) \<and>
      (MetadataTextFilename opts \<noteq> [] \<longrightarrow>
         KeepFile MetadataFile \<in> set (snd (llc_main lib opts)))) \<and>
   (fst (llc_main lib opts) = Exit 1 \<longrightarrow>
      KeepFile MetadataFile \<notin> set (snd (llc_main lib opts)) \<and>
      (KeepFile CodeFile \<in> set (snd (llc_main lib opts)) \<longrightarrow>
         MetadataTextFilename opts \<noteq> [] \<and> OpenError lib (MetadataTextFilename opts) \<noteq> [])) \<and>
   (fst (llc_main lib opts) = AssertionFailed \<longrightarrow>
      (\<forall>e\<in>set (snd (llc_main lib opts)). \<not> creates_file e \<and> \<not> commits_file e)) \<and>
   (\<forall>M t msg. ResolveModuleAndTriple lib opts = Inr (M, t) \<and>
        lookupTarget lib (MArch opts) t = Inl msg \<longrightarrow>
      fst (llc_main lib opts) = Exit 1 \<and>
      (\<forall>e\<in>set (snd (llc_main lib opts)). \<not> creates_file e \<and> \<not> commits_file e))"
proof -
  have target: "fst (llc_main lib opts) = Exit 1 \<and>
      (\<forall>e\<in>set (snd (llc_main lib opts)). \<not> creates_file e \<and> \<not> commits_file e)"
    if "ResolveModuleAndTriple lib opts = Inr (M, t)" "lookupTarget lib (MArch opts) t = Inl msg"
    for M t msg
    using that by (simp add: llc_main_def Configure_def)
  have rest: "(\<forall>c. fst (llc_main lib opts) = Exit c \<longrightarrow> c = 0 \<or> c = 1) \<and>
   (fst (llc_main lib opts) = Exit 0 \<longrightarrow>
      KeepFile CodeFile \<in> set (snd (llc_main lib opts)) \<and>
      (MetadataTextFilename opts \<noteq> [] \<longrightarrow>
         KeepFile MetadataFile \<in> set (snd (llc_main lib opts)))) \<and>
   (fst (llc_main lib opts) = Exit 1 \<longrightarrow>
      KeepFile MetadataFile \<notin> set (snd (llc_main lib opts)) \<and>
      (KeepFile CodeFile \<in> set (snd (llc_main lib opts)) \<longrightarrow>
         MetadataTextFilename opts \<noteq> [] \<and> OpenError lib (MetadataTextFilename opts) \<noteq> [])) \<and>
   (fst (llc_main lib opts) = AssertionFailed \<longrightarrow>
      (\<forall>e\<in>set (snd (llc_main lib opts)). \<not> creates_file e \<and> \<not> commits_file e))"
  proof (cases "Configure lib opts")
    case (Inl r)
    obtain out tr where r: "r = (out, tr)" by (cases r)
    from Configure_Inl[OF Inl[unfolded r]] have
      out: "out = Exit 1 \<or> out = AssertionFailed"
      and tr: "\<forall>e\<in>set tr. \<not> creates_file e \<and> \<not> commits_file e"
      by blast+
    have nk: "KeepFile a \<notin> set tr" for a using tr by force
    from out tr nk show ?thesis
      by (auto simp: llc_main_Inl[OF Inl] r)
  next
    case (Inr cfg)
    show ?thesis
      unfolding llc_main_Inr[OF Inr]
      by (cases lib opts cfg rule: Generate_cases) (auto simp: request_of_def)
  qed
  from target rest show ?thesis by blast
qed

theorem exit_code_and_commits_witness:
  "fst (llc_main example_Library (example_Options\<lparr>MetadataTextFilename := ''deps.txt''\<rparr>))
     = Exit 0 \<and>
   MetadataTextFilename (example_Options\<lparr>MetadataTextFilename := ''deps.txt''\<rparr>) \<noteq> [] \<and>
   KeepFile CodeFile \<in> set (snd (llc_main example_Library
     (example_Options\<lparr>MetadataTextFilename := ''deps.txt''\<rparr>))) \<and>
   KeepFile MetadataFile \<in> set (snd (llc_main example_Library
     (example_Options\<lparr>MetadataTextFilename := ''deps.txt''\<rparr>))) \<and>
   fst (llc_main example_Library (example_Options\<lparr>MetadataTextFilename := ''/ro/deps.txt''\<rparr>))
     = Exit 1 \<and>
   KeepFile CodeFile \<in> set (snd (llc_main example_Library
     (example_Options\<lparr>MetadataTextFilename := ''/ro/deps.txt''\<rparr>))) \<and>
   KeepFile MetadataFile \<notin> set (snd (llc_main example_Library
     (example_Options\<lparr>MetadataTextFilename := ''/ro/deps.txt''\<rparr>))) \<and>
   OpenError example_Library ''/ro/deps.txt'' \<noteq> [] \<and>
   fst (llc_main example_Library (example_Options\<lparr>MCPU := ''help''\<rparr>)) = AssertionFailed \<and>
   list_all (\<lambda>e. \<not> creates_file e \<and> \<not> commits_file e)
     (snd (llc_main example_Library (example_Options\<lparr>MCPU := ''help''\<rparr>))) \<and>
   fst (llc_main
     (example_Library\<lparr>createTargetMachine := (\<lambda>T t cpu fs lvl.
        Some \<lparr>getDataLayout = None, TransformInfo = 0, MachineHandle = 0\<rparr>)\<rparr>)
     (example_Options\<lparr>MetadataTextFilename := ''deps.txt''\<rparr>)) = Exit 0 \<and>
   KeepFile CodeFile \<in> set (snd (llc_main
     (example_Library\<lparr>createTargetMachine := (\<lambda>T t cpu fs lvl.
        Some \<lparr>getDataLayout = None, TransformInfo = 0, MachineHandle = 0\<rparr>)\<rparr>)
     (example_Options\<lparr>MetadataTextFilename := ''deps.txt''\<rparr>))) \<and>
   KeepFile MetadataFile \<in> set (snd (llc_main
     (example_Library\<lparr>createTargetMachine := (\<lambda>T t cpu fs lvl.
        Some \<lparr>getDataLayout = None, TransformInfo = 0, MachineHandle = 0\<rparr>)\<rparr>)
     (example_Options\<lparr>MetadataTextFilename := ''deps.txt''\<rparr>))) \<and>
   lookupTarget example_Library
     (MArch (example_Options\<lparr>TargetTriple := ''bogus-unknown-unknown''\<rparr>))
     ''bogus-unknown-unknown'' = Inl ''No available targets are compatible with this triple'' \<and>
   llc_main example_Library (example_Options\<lparr>TargetTriple := ''bogus-unknown-unknown''\<rparr>) =
     (Exit 1, [Errs ''llc: No available targets are compatible with this triple''])"
proof -
  let ?nolayout = "example_Library\<lparr>createTargetMachine := (\<lambda>T t cpu fs lvl.
        Some \<lparr>getDataLayout = None, TransformInfo = 0, MachineHandle = 0\<rparr>)\<rparr>"
  have denied: "OpenError example_Library ''/ro/deps.txt'' \<noteq> []"
    by (simp add: example_Library_def)
  have lookup: "lookupTarget example_Library
     (MArch (example_Options\<lparr>TargetTriple := ''bogus-unknown-unknown''\<rparr>))
     ''bogus-unknown-unknown'' = Inl ''No available targets are compatible with this triple''"
    by (simp add: example_Library_def)
  have requested:
    "MetadataTextFilename (example_Options\<lparr>MetadataTextFilename := ''deps.txt''\<rparr>) \<noteq> []"
    by simp
  have ok: "fst (llc_main example_Library
      (example_Options\<lparr>MetadataTextFilename := ''deps.txt''\<rparr>)) = Exit 0"
    by (simp add: example_metadata)
  have failed: "fst (llc_main example_Library
      (example_Options\<lparr>MetadataTextFilename := ''/ro/deps.txt''\<rparr>)) = Exit 1"
    by (simp add: example_metadata_fails)
  have kept: "KeepFile CodeFile \<in> set (snd (llc_main example_Library
      (example_Options\<lparr>MetadataTextFilename := ''/ro/deps.txt''\<rparr>)))"
    by (simp add: example_metadata_fails)
  have asserted: "fst (llc_main example_Library (example_Options\<lparr>MCPU := ''help''\<rparr>))
      = AssertionFailed"
    by (simp add: example_help)
  have null: "fst (llc_main ?nolayout (example_Options\<lparr>MetadataTextFilename := ''deps.txt''\<rparr>))
      = Exit 0"
    by (simp add: example_no_layout)
  note on_success = exit_code_and_commits[of example_Library
      "example_Options\<lparr>MetadataTextFilename := ''deps.txt''\<rparr>",
      THEN conjunct2, THEN conjunct1, rule_format, OF ok]
  note on_failure = exit_code_and_commits[of example_Library
      "example_Options\<lparr>MetadataTextFilename := ''/ro/deps.txt''\<rparr>",
      THEN conjunct2, THEN conjunct2, THEN conjunct1, rule_format, OF failed]
  note on_assertion = exit_code_and_commits[of example_Library
      "example_Options\<lparr>MCPU := ''help''\<rparr>",
      THEN conjunct2, THEN conjunct2, THEN conjunct2, THEN conjunct1, rule_format, OF asserted]
  note on_null = exit_code_and_commits[of ?nolayout
      "example_Options\<lparr>MetadataTextFilename := ''deps.txt''\<rparr>",
      THEN conjunct2, THEN conjunct1, rule_format, OF null]
  note on_lookup = exit_code_and_commits[of example_Library
      "example_Options\<lparr>TargetTriple := ''bogus-unknown-unknown''\<rparr>",
      THEN conjunct2, THEN conjunct2, THEN conjunct2, THEN conjunct2,
      rule_format, OF conjI, OF example_bogus_triple lookup]
  have no_files: "list_all (\<lambda>e. \<not> creates_file e \<and> \<not> commits_file e)
     (snd (llc_main example_Library (example_Options\<lparr>MCPU := ''help''\<rparr>)))"
    using on_assertion by (simp add: list_all_iff)
  have bogus: "llc_main example_Library
      (example_Options\<lparr>TargetTriple := ''bogus-unknown-unknown''\<rparr>) =
     (Exit 1, [Errs ''llc: No available targets are compatible with this triple''])"
    using on_lookup by (simp add: example_bogus)
  from ok requested on_success failed kept on_failure denied asserted no_files null on_null
    lookup bogus
  show ?thesis by simp
qed

text \<open>
  The claim as stated (an invocation that exits with 1 leaves no artifact
  committed) fails when the metadata file cannot be opened.
\<close>

theorem committed_code_on_failure_counterexample:
  "fst (llc_main example_Library (example_Options\<lparr>MetadataTextFilename := ''/ro/deps.txt''\<rparr>))
     = Exit 1 \<and>
   KeepFile CodeFile \<in> set (snd (llc_main example_Library
     (example_Options\<lparr>MetadataTextFilename := ''/ro/deps.txt''\<rparr>)))"
  by (simp add: example_metadata_fails)

section \<open>The metadata file\<close>



section \<open>The pipeline\<close>

text \<open>
  C9. Every pass list an invocation runs consists of the library-call
  information for the triple (with all functions disabled exactly when
  \<open>DisableSimplifyLibCalls\<close> is set), then the target transform information of
  the target machine, then the data layout (the target machine's when it has one,
  the module's otherwise), then the passes \<open>addPassesToEmitFile\<close> installed when
  it was called with the pass manager, the file type, the verification flag and
  the identifiers of the \<open>StartAfter\<close> and \<open>StopAfter\<close> passes of this
  invocation. When the target machine declines that call, the invocation returns 1
  and has run no pass.
\<close>

theorem pipeline_assembly:
  "(\<forall>c PM. ModuleCall c \<in> set (snd (llc_main lib opts)) \<and> passes_run c = Some PM \<longrightarrow>
      (\<exists>cfg backend StartAfterID StopAfterID.
         Configure lib opts = Inr cfg \<and>
         LookupPassID lib (StartAfter opts) = Some StartAfterID \<and>
         LookupPassID lib (StopAfter opts) = Some StopAfterID \<and>
         addPassesToEmitFile lib (the_machine cfg) (manager_kind opts) (FileType opts)
           (NoVerify opts) StartAfterID StopAfterID = Some backend \<and>
         PM = [TargetLibraryInfo (the_triple cfg) (DisableSimplifyLibCalls opts),
               TargetTransformInfo (TransformInfo (the_machine cfg)),
               (case getDataLayout (the_machine cfg) of
                  Some TD \<Rightarrow> DataLayoutOfTarget TD
                | None \<Rightarrow> DataLayoutOfModule (ModuleDataLayout (the_module cfg)))] @ backend)) \<and>
   (\<forall>cfg StartAfterID StopAfterID.
      Configure lib opts = Inr cfg \<and>
      LookupPassID lib (StartAfter opts) = Some StartAfterID \<and>
      LookupPassID lib (StopAfter opts) = Some StopAfterID \<and>
      addPassesToEmitFile lib (the_machine cfg) (manager_kind opts) (FileType opts)
        (NoVerify opts) StartAfterID StopAfterID = None \<longrightarrow>
      fst (llc_main lib opts) = Exit 1 \<and>
      (\<forall>e\<in>set (snd (llc_main lib opts)). \<not> is_pass_execution e))"
proof -
  have A: "\<exists>cfg backend StartAfterID StopAfterID.
         Configure lib opts = Inr cfg \<and>
         LookupPassID lib (StartAfter opts) = Some StartAfterID \<and>
         LookupPassID lib (StopAfter opts) = Some StopAfterID \<and>
         addPassesToEmitFile lib (the_machine cfg) (manager_kind opts) (FileType opts)
           (NoVerify opts) StartAfterID StopAfterID = Some backend \<and>
         PM = [TargetLibraryInfo (the_triple cfg) (DisableSimplifyLibCalls opts),
               TargetTransformInfo (TransformInfo (the_machine cfg)),
               (case getDataLayout (the_machine cfg) of
                  Some TD \<Rightarrow> DataLayoutOfTarget TD
                | None \<Rightarrow> DataLayoutOfModule (ModuleDataLayout (the_module cfg)))] @ backend"
    if mem: "ModuleCall c \<in> set (snd (llc_main lib opts))" and pr: "passes_run c = Some PM"
    for c PM
  proof (cases "Configure lib opts")
    case (Inl r)
    obtain out tr where r: "r = (out, tr)" by (cases r)
    from Configure_Inl[OF Inl[unfolded r]] have "\<forall>e\<in>set tr. \<not> is_pass_execution e" by blast
    moreover have "is_pass_execution (ModuleCall c)"
      using pr by (auto simp: is_pass_execution_iff)
    ultimately show ?thesis using mem by (auto simp: llc_main_Inl[OF Inl] r)
  next
    case (Inr cfg)
    have inops: "\<exists>ops. BuildAndRun lib opts (the_module cfg) (the_triple cfg) (the_machine cfg)
                  = Inr (map ModuleCall ops) \<and> c \<in> set ops"
      using mem pr unfolding llc_main_Inr[OF Inr]
      by (cases lib opts cfg rule: Generate_cases) (auto simp: request_of_def)
    then obtain ops where bar: "BuildAndRun lib opts (the_module cfg) (the_triple cfg)
        (the_machine cfg) = Inr (map ModuleCall ops)" and c: "c \<in> set ops"
      by blast
    from BuildAndRun_Inr[OF bar] obtain backend sa so where
      sa: "LookupPassID lib (StartAfter opts) = Some sa"
      and so: "LookupPassID lib (StopAfter opts) = Some so"
      and add: "addPassesToEmitFile lib (the_machine cfg) (manager_kind opts) (FileType opts)
             (NoVerify opts) sa so = Some backend"
      and ev: "map ModuleCall ops = map ModuleCall (RunPipeline opts (the_module cfg)
                 (InitialPasses opts (the_module cfg) (the_triple cfg) (the_machine cfg) @ backend))"
      by blast
    from ev have "ops = RunPipeline opts (the_module cfg)
                 (InitialPasses opts (the_module cfg) (the_triple cfg) (the_machine cfg) @ backend)"
      by (simp add: inj_map_eq_map inj_on_def)
    with c pr have "PM = InitialPasses opts (the_module cfg) (the_triple cfg) (the_machine cfg)
                      @ backend"
      using passes_RunPipeline by blast
    then have "PM = [TargetLibraryInfo (the_triple cfg) (DisableSimplifyLibCalls opts),
               TargetTransformInfo (TransformInfo (the_machine cfg)),
               (case getDataLayout (the_machine cfg) of
                  Some TD \<Rightarrow> DataLayoutOfTarget TD
                | None \<Rightarrow> DataLayoutOfModule (ModuleDataLayout (the_module cfg)))] @ backend"
      by (simp add: InitialPasses_def)
    with Inr sa so add show ?thesis by blast
  qed
  have B: "fst (llc_main lib opts) = Exit 1 \<and>
      (\<forall>e\<in>set (snd (llc_main lib opts)). \<not> is_pass_execution e)"
    if cfg: "Configure lib opts = Inr cfg"
      and sa: "LookupPassID lib (StartAfter opts) = Some sa"
      and so: "LookupPassID lib (StopAfter opts) = Some so"
      and declines: "addPassesToEmitFile lib (the_machine cfg) (manager_kind opts)
           (FileType opts) (NoVerify opts) sa so = None"
    for cfg sa so
  proof -
    from BuildAndRun_declined[OF sa so declines, of "the_module cfg" "the_triple cfg"]
    obtain ev where "BuildAndRun lib opts (the_module cfg) (the_triple cfg) (the_machine cfg)
        = Inl ev" by blast
    then show ?thesis
      unfolding llc_main_Inr[OF cfg]
      by (cases lib opts cfg rule: Generate_cases) (auto simp: request_of_def)
  qed
  from A B show ?thesis by blast
qed

theorem pipeline_assembly_witness:
  "ModuleCall (PassManager_run
      [TargetLibraryInfo ''x86_64-unknown-linux-gnu'' False, TargetTransformInfo 0,
       DataLayoutOfTarget ''e-p:64:64'', BackendPass 0, BackendPass 1])
     \<in> set (snd (llc_main example_Library example_Options)) \<and>
   passes_run (PassManager_run
      [TargetLibraryInfo ''x86_64-unknown-linux-gnu'' False, TargetTransformInfo 0,
       DataLayoutOfTarget ''e-p:64:64'', BackendPass 0, BackendPass 1]) =
     Some ([TargetLibraryInfo ''x86_64-unknown-linux-gnu'' False, TargetTransformInfo 0,
            DataLayoutOfTarget ''e-p:64:64''] @ [BackendPass 0, BackendPass 1]) \<and>
   Configure example_Library (example_Options\<lparr>FileType := CGFT_ObjectFile\<rparr>) =
     Inr \<lparr>the_module = example_Module, the_target = \<lparr>getName = ''x86-64''\<rparr>,
          the_triple = ''x86_64-unknown-linux-gnu'', features_str = [],
          opt_level = CodeGenOpt_Default,
          the_machine = \<lparr>getDataLayout = Some ''e-p:64:64'', TransformInfo = 0,
                          MachineHandle = 0\<rparr>\<rparr> \<and>
   LookupPassID example_Library (StartAfter (example_Options\<lparr>FileType := CGFT_ObjectFile\<rparr>))
     = Some None \<and>
   LookupPassID example_Library (StopAfter (example_Options\<lparr>FileType := CGFT_ObjectFile\<rparr>))
     = Some None \<and>
   addPassesToEmitFile example_Library
     \<lparr>getDataLayout = Some ''e-p:64:64'', TransformInfo = 0, MachineHandle = 0\<rparr>
     (manager_kind (example_Options\<lparr>FileType := CGFT_ObjectFile\<rparr>))
     (FileType (example_Options\<lparr>FileType := CGFT_ObjectFile\<rparr>))
     (NoVerify (example_Options\<lparr>FileType := CGFT_ObjectFile\<rparr>))
     None None = None \<and>
   fst (llc_main example_Library (example_Options\<lparr>FileType := CGFT_ObjectFile\<rparr>)) = Exit 1 \<and>
   list_all (\<lambda>e. \<not> is_pass_execution e)
     (snd (llc_main example_Library (example_Options\<lparr>FileType := CGFT_ObjectFile\<rparr>)))"
proof -
  let ?obj = "example_Options\<lparr>FileType := CGFT_ObjectFile\<rparr>"
  let ?tm = "\<lparr>getDataLayout = Some ''e-p:64:64'', TransformInfo = 0, MachineHandle = 0\<rparr>"
  have sa: "LookupPassID example_Library (StartAfter ?obj) = Some None"
    by (simp add: LookupPassID_def example_Options_def initial_Options_def)
  have so: "LookupPassID example_Library (StopAfter ?obj) = Some None"
    by (simp add: LookupPassID_def example_Options_def initial_Options_def)
  have declines: "addPassesToEmitFile example_Library ?tm (manager_kind ?obj) (FileType ?obj)
      (NoVerify ?obj) None None = None"
    by (simp add: example_Library_def)
  have declines': "addPassesToEmitFile example_Library
      (the_machine \<lparr>the_module = example_Module, the_target = \<lparr>getName = ''x86-64''\<rparr>,
          the_triple = ''x86_64-unknown-linux-gnu'', features_str = [],
          opt_level = CodeGenOpt_Default, the_machine = ?tm\<rparr>)
      (manager_kind ?obj) (FileType ?obj) (NoVerify ?obj) None None = None"
    by (simp add: example_Library_def)
  note declined = pipeline_assembly[of example_Library ?obj, THEN conjunct2, rule_format,
      OF conjI, OF example_object_Configure, OF conjI, OF sa, OF conjI, OF so declines']
  have run: "ModuleCall (PassManager_run
      [TargetLibraryInfo ''x86_64-unknown-linux-gnu'' False, TargetTransformInfo 0,
       DataLayoutOfTarget ''e-p:64:64'', BackendPass 0, BackendPass 1])
     \<in> set (snd (llc_main example_Library example_Options))"
    by (simp add: example_run)
  have pr: "passes_run (PassManager_run
      [TargetLibraryInfo ''x86_64-unknown-linux-gnu'' False, TargetTransformInfo 0,
       DataLayoutOfTarget ''e-p:64:64'', BackendPass 0, BackendPass 1]) =
     Some ([TargetLibraryInfo ''x86_64-unknown-linux-gnu'' False, TargetTransformInfo 0,
            DataLayoutOfTarget ''e-p:64:64''] @ [BackendPass 0, BackendPass 1])"
    by simp
  note assembled = pipeline_assembly[of example_Library example_Options, THEN conjunct1,
      rule_format, OF conjI, OF run pr]
  have none: "list_all (\<lambda>e. \<not> is_pass_execution e) (snd (llc_main example_Library ?obj))"
    using declined by (simp add: list_all_iff)
  from assembled run pr sa so declines declined none example_object_Configure
  show ?thesis by simp
qed

section \<open>Memory reduction\<close>

text \<open>
  C3. With \<open>ReduceMemoryFootprint\<close> set, the calls on the module are either none
  (the invocation ended before the run) or the initialization, then for each
  function of the module in declaration order its run followed at once by its
  \<open>Dematerialize\<close>, then the finalization (and after it at most the adding of
  prototypes). So wherever the run of function \<open>J\<close> stands in the calls, the next
  call dematerializes \<open>J\<close>, and the functions dematerialized before it are
  exactly those before \<open>J\<close>, which are also exactly those run before it. An
  invocation that commits its compiled code has made these calls.
\<close>

theorem reduce_memory_dematerializes:
  assumes "ReduceMemoryFootprint opts"
  shows "(module_ops (snd (llc_main lib opts)) = [] \<or>
          (\<exists>cfg PM rest.
             Configure lib opts = Inr cfg \<and>
             module_ops (snd (llc_main lib opts)) =
               FPM_doInitialization PM #
               concat (map (\<lambda>I. [FPM_run PM I, Function_Dematerialize I])
                         [0..<length (ModuleFunctions (the_module cfg))]) @
               FPM_doFinalization PM # rest \<and>
             (rest = [] \<or> (\<exists>TD. rest = [IntrinsicLowering_AddPrototypes TD])))) \<and>
         (\<forall>pre PM J post.
            module_ops (snd (llc_main lib opts)) = pre @ FPM_run PM J # post \<longrightarrow>
              (\<exists>post'. post = Function_Dematerialize J # post') \<and>
              {I. Function_Dematerialize I \<in> set pre} = {I. I < J} \<and>
              {I. FPM_run PM I \<in> set pre} = {I. I < J}) \<and>
         (KeepFile CodeFile \<in> set (snd (llc_main lib opts)) \<longrightarrow>
            module_ops (snd (llc_main lib opts)) \<noteq> [])"
proof (cases "Configure lib opts")
  case (Inl r)
  obtain out tr where r: "r = (out, tr)" by (cases r)
  from Configure_Inl_module_ops[OF Inl[unfolded r]] committed_has_run[of lib opts]
  show ?thesis by (auto simp: llc_main_Inl[OF Inl] r)
next
  case (Inr cfg)
  let ?ops = "module_ops (snd (llc_main lib opts))"
  let ?n = "length (ModuleFunctions (the_module cfg))"
  from Generate_module_ops[of lib opts cfg]
  consider "?ops = []"
    | backend rest where
      "?ops = RunPipeline opts (the_module cfg)
          (InitialPasses opts (the_module cfg) (the_triple cfg) (the_machine cfg) @ backend) @ rest"
      "rest = [] \<or> (\<exists>TD. rest = [IntrinsicLowering_AddPrototypes TD])"
    unfolding llc_main_Inr[OF Inr] by blast
  then show ?thesis
  proof cases
    case 1
    with committed_has_run[of lib opts] show ?thesis by auto
  next
    case (2 backend rest)
    define PM where "PM = InitialPasses opts (the_module cfg) (the_triple cfg) (the_machine cfg)
                            @ backend"
    have shape: "?ops = FPM_doInitialization PM # run_functions PM True [0..<?n] @
                          FPM_doFinalization PM # rest"
      using 2(1) assms by (simp add: RunPipeline_def PM_def)
    have first: "\<exists>cfg PM rest.
             Configure lib opts = Inr cfg \<and>
             ?ops =
               FPM_doInitialization PM #
               concat (map (\<lambda>I. [FPM_run PM I, Function_Dematerialize I])
                         [0..<length (ModuleFunctions (the_module cfg))]) @
               FPM_doFinalization PM # rest \<and>
             (rest = [] \<or> (\<exists>TD. rest = [IntrinsicLowering_AddPrototypes TD]))"
      using Inr shape 2(2) unfolding run_functions_concat by blast
    have second: "(\<exists>post'. post = Function_Dematerialize J # post') \<and>
              {I. Function_Dematerialize I \<in> set pre} = {I. I < J} \<and>
              {I. FPM_run PM' I \<in> set pre} = {I. I < J}"
      if "?ops = pre @ FPM_run PM' J # post" for pre PM' J post
      using reduce_shape_split[OF shape 2(2) that] by blast
    from first second committed_has_run[of lib opts] show ?thesis by blast
  qed
qed

theorem reduce_memory_dematerializes_witness:
  "ReduceMemoryFootprint (example_Options\<lparr>ReduceMemoryFootprint := True\<rparr>) \<and>
   module_ops (snd (llc_main example_Library
      (example_Options\<lparr>ReduceMemoryFootprint := True\<rparr>))) =
     [FPM_doInitialization
        [TargetLibraryInfo ''x86_64-unknown-linux-gnu'' False, TargetTransformInfo 0,
         DataLayoutOfTarget ''e-p:64:64'', BackendPass 0, BackendPass 1],
      FPM_run
        [TargetLibraryInfo ''x86_64-unknown-linux-gnu'' False, TargetTransformInfo 0,
         DataLayoutOfTarget ''e-p:64:64'', BackendPass 0, BackendPass 1] 0,
      Function_Dematerialize 0] @
     FPM_run
        [TargetLibraryInfo ''x86_64-unknown-linux-gnu'' False, TargetTransformInfo 0,
         DataLayoutOfTarget ''e-p:64:64'', BackendPass 0, BackendPass 1] 1 #
     [Function_Dematerialize 1,
      FPM_doFinalization
        [TargetLibraryInfo ''x86_64-unknown-linux-gnu'' False, TargetTransformInfo 0,
         DataLayoutOfTarget ''e-p:64:64'', BackendPass 0, BackendPass 1]] \<and>
   {I. Function_Dematerialize I \<in> set
      [FPM_doInitialization
        [TargetLibraryInfo ''x86_64-unknown-linux-gnu'' False, TargetTransformInfo 0,
         DataLayoutOfTarget ''e-p:64:64'', BackendPass 0, BackendPass 1],
       FPM_run
        [TargetLibraryInfo ''x86_64-unknown-linux-gnu'' False, TargetTransformInfo 0,
         DataLayoutOfTarget ''e-p:64:64'', BackendPass 0, BackendPass 1] 0,
       Function_Dematerialize 0]} = {I. I < 1}"
proof -
  let ?opts = "example_Options\<lparr>ReduceMemoryFootprint := True\<rparr>"
  let ?PM = "[TargetLibraryInfo ''x86_64-unknown-linux-gnu'' False, TargetTransformInfo 0,
         DataLayoutOfTarget ''e-p:64:64'', BackendPass 0, BackendPass 1]"
  have h: "ReduceMemoryFootprint ?opts" by simp
  have ops: "module_ops (snd (llc_main example_Library ?opts)) =
      [FPM_doInitialization ?PM, FPM_run ?PM 0, Function_Dematerialize 0] @
      FPM_run ?PM 1 # [Function_Dematerialize 1, FPM_doFinalization ?PM]"
    by (simp add: example_reduce)
  from reduce_memory_dematerializes[OF h, of example_Library, THEN conjunct2, THEN conjunct1,
         rule_format, OF ops]
  have "{I. Function_Dematerialize I \<in> set
      [FPM_doInitialization ?PM, FPM_run ?PM 0, Function_Dematerialize 0]} = {I. I < 1}"
    by blast
  with h ops show ?thesis by blast
qed

section \<open>The feature string\<close>

lemma spec_feature_set_snoc:
  "spec_feature_set reading defaults (c # map AddFeature (attrs @ [s])) =
   spec_apply reading defaults
     (spec_feature_set reading defaults (c # map AddFeature attrs)) (AddFeature s)"
  by (simp add: spec_feature_set_def)

lemma last_toggle_Nil: "last_toggle reading n [] = None"
  by (simp add: last_toggle_def)

lemma last_toggle_snoc:
  "last_toggle reading n (attrs @ [s]) =
     (if fst (reading s) = n then Some (snd (reading s)) else last_toggle reading n attrs)"
  by (simp add: last_toggle_def Let_def)

lemma spec_feature_set_override:
  "n \<in> spec_feature_set reading defaults (getDefaultSubtargetFeatures t # map AddFeature attrs)
     \<longleftrightarrow> (case last_toggle reading n attrs of Some on \<Rightarrow> on | None \<Rightarrow> n \<in> defaults t)"
proof (induction attrs rule: rev_induct)
  case Nil
  show ?case
    by (simp add: spec_feature_set_def spec_apply_def last_toggle_Nil)
next
  case (snoc s attrs)
  show ?case
  proof (cases "fst (reading s) = n")
    case True
    then show ?thesis
      unfolding spec_feature_set_snoc last_toggle_snoc
      by (auto simp: spec_apply_def)
  next
    case False
    have "n \<in> spec_apply reading defaults
            (spec_feature_set reading defaults
               (getDefaultSubtargetFeatures t # map AddFeature attrs)) (AddFeature s)
          \<longleftrightarrow> n \<in> spec_feature_set reading defaults
                   (getDefaultSubtargetFeatures t # map AddFeature attrs)"
      using False by (auto simp: spec_apply_def)
    with False snoc.IH show ?thesis
      unfolding spec_feature_set_snoc last_toggle_snoc by simp
  qed
qed

text \<open>
  C6, as amended. When the user gives at least one feature string, the feature
  string a target machine is requested with is \<open>getString\<close> of a
  \<open>SubtargetFeatures\<close> that first received the default features of the triple
  and then each user string, in the order given. On the feature set of the
  specification this makes later user flags override both the defaults and
  earlier flags: a feature is in the assembled set exactly when the last user
  string that names it switches it on or, when no user string names it, when it
  is among the defaults; and where \<open>getString\<close> renders that set, the string the
  target machine is requested with is the rendering of it.
\<close>

theorem features_after_defaults:
  assumes "MAttrs opts \<noteq> []"
    and "CreateTargetMachine t cpu f l \<in> set (snd (llc_main lib opts))"
  shows "f = Features_getString lib (getDefaultSubtargetFeatures t # map AddFeature (MAttrs opts)) \<and>
         (\<forall>n. n \<in> spec_feature_set reading defaults
                    (getDefaultSubtargetFeatures t # map AddFeature (MAttrs opts)) \<longleftrightarrow>
                (case last_toggle reading n (MAttrs opts) of
                   Some on \<Rightarrow> on
                 | None \<Rightarrow> n \<in> defaults t)) \<and>
         (Features_getString lib = (\<lambda>calls. render (spec_feature_set reading defaults calls)) \<longrightarrow>
            f = render (spec_feature_set reading defaults
                  (getDefaultSubtargetFeatures t # map AddFeature (MAttrs opts))))"
proof -
  have calls: "f = Features_getString lib
                     (getDefaultSubtargetFeatures t # map AddFeature (MAttrs opts))"
    using request_in_llc_main[OF assms(2)] assms(1)
    by (simp add: PackageFeatures_def)
  have override: "\<forall>n. n \<in> spec_feature_set reading defaults
                    (getDefaultSubtargetFeatures t # map AddFeature (MAttrs opts)) \<longleftrightarrow>
                (case last_toggle reading n (MAttrs opts) of
                   Some on \<Rightarrow> on
                 | None \<Rightarrow> n \<in> defaults t)"
    using spec_feature_set_override[of _ reading defaults t "MAttrs opts"] by blast
  have rendered: "f = render (spec_feature_set reading defaults
                  (getDefaultSubtargetFeatures t # map AddFeature (MAttrs opts)))"
    if "Features_getString lib = (\<lambda>calls. render (spec_feature_set reading defaults calls))"
    using calls that by simp
  from calls override rendered show ?thesis by blast
qed

theorem features_after_defaults_witness:
  "MAttrs (example_Options\<lparr>TargetTriple := ''powerpc-apple-darwin9'',
                            MAttrs := [''+fpu'', ''-altivec'', ''-fpu'']\<rparr>) \<noteq> [] \<and>
   CreateTargetMachine ''powerpc-apple-darwin9'' [] ''-altivec,-fpu'' CodeGenOpt_Default
     \<in> set (snd (llc_main
          (spec_Library sign_reading example_defaults example_render example_Library)
          (example_Options\<lparr>TargetTriple := ''powerpc-apple-darwin9'',
                           MAttrs := [''+fpu'', ''-altivec'', ''-fpu'']\<rparr>))) \<and>
   Features_getString (spec_Library sign_reading example_defaults example_render example_Library)
     = (\<lambda>calls. example_render (spec_feature_set sign_reading example_defaults calls)) \<and>
   ''-altivec,-fpu'' =
     example_render (spec_feature_set sign_reading example_defaults
       (getDefaultSubtargetFeatures ''powerpc-apple-darwin9'' #
        map AddFeature [''+fpu'', ''-altivec'', ''-fpu''])) \<and>
   ''altivec'' \<in> example_defaults ''powerpc-apple-darwin9'' \<and>
   last_toggle sign_reading ''altivec'' [''+fpu'', ''-altivec'', ''-fpu''] = Some False \<and>
   ''altivec'' \<notin> spec_feature_set sign_reading example_defaults
       (getDefaultSubtargetFeatures ''powerpc-apple-darwin9'' #
        map AddFeature [''+fpu'', ''-altivec'', ''-fpu'']) \<and>
   last_toggle sign_reading ''fpu'' [''+fpu'', ''-altivec'', ''-fpu''] = Some False \<and>
   ''fpu'' \<notin> spec_feature_set sign_reading example_defaults
       (getDefaultSubtargetFeatures ''powerpc-apple-darwin9'' #
        map AddFeature [''+fpu'', ''-altivec'', ''-fpu''])"
proof -
  let ?lib = "spec_Library sign_reading example_defaults example_render example_Library"
  let ?opts = "example_Options\<lparr>TargetTriple := ''powerpc-apple-darwin9'',
                               MAttrs := [''+fpu'', ''-altivec'', ''-fpu'']\<rparr>"
  have given: "MAttrs ?opts \<noteq> []" by simp
  have attrs: "MAttrs ?opts = [''+fpu'', ''-altivec'', ''-fpu'']" by simp
  have request: "CreateTargetMachine ''powerpc-apple-darwin9'' [] ''-altivec,-fpu''
      CodeGenOpt_Default \<in> set (snd (llc_main ?lib ?opts))"
    by (simp add: example_override)
  have renders: "Features_getString ?lib =
      (\<lambda>calls. example_render (spec_feature_set sign_reading example_defaults calls))"
    by (simp add: spec_Library_def)
  have dflt: "''altivec'' \<in> example_defaults ''powerpc-apple-darwin9''"
    by (simp add: example_defaults_def)
  have altivec: "last_toggle sign_reading ''altivec'' [''+fpu'', ''-altivec'', ''-fpu'']
      = Some False"
    by (simp add: last_toggle_def sign_reading_def)
  have fpu: "last_toggle sign_reading ''fpu'' [''+fpu'', ''-altivec'', ''-fpu''] = Some False"
    by (simp add: last_toggle_def sign_reading_def)
  note assembled = features_after_defaults[OF given request,
      of sign_reading example_defaults example_render, unfolded attrs]
  from assembled[THEN conjunct2, THEN conjunct2, rule_format, OF renders]
  have string: "''-altivec,-fpu'' =
     example_render (spec_feature_set sign_reading example_defaults
       (getDefaultSubtargetFeatures ''powerpc-apple-darwin9'' #
        map AddFeature [''+fpu'', ''-altivec'', ''-fpu'']))" .
  from assembled[THEN conjunct2, THEN conjunct1, rule_format, of "''altivec''"] altivec
  have no_altivec: "''altivec'' \<notin> spec_feature_set sign_reading example_defaults
       (getDefaultSubtargetFeatures ''powerpc-apple-darwin9'' #
        map AddFeature [''+fpu'', ''-altivec'', ''-fpu''])"
    by simp
  from assembled[THEN conjunct2, THEN conjunct1, rule_format, of "''fpu''"] fpu
  have no_fpu: "''fpu'' \<notin> spec_feature_set sign_reading example_defaults
       (getDefaultSubtargetFeatures ''powerpc-apple-darwin9'' #
        map AddFeature [''+fpu'', ''-altivec'', ''-fpu''])"
    by simp
  from given request renders string dflt altivec no_altivec fpu no_fpu
  show ?thesis by blast
qed


text \<open>
  The claim as stated, for every invocation, fails when the user gives no feature
  string and the default feature set of the triple is not empty: the target
  machine is requested with the empty string, not with the defaults.
\<close>

theorem defaults_skipped_counterexample:
  "MAttrs (example_Options\<lparr>TargetTriple := ''powerpc-apple-darwin9''\<rparr>) = [] \<and>
   CreateTargetMachine ''powerpc-apple-darwin9'' [] [] CodeGenOpt_Default
     \<in> set (snd (llc_main example_Library
          (example_Options\<lparr>TargetTriple := ''powerpc-apple-darwin9''\<rparr>))) \<and>
   Features_getString example_Library
     (getDefaultSubtargetFeatures ''powerpc-apple-darwin9'' #
      map AddFeature (MAttrs (example_Options\<lparr>TargetTriple := ''powerpc-apple-darwin9''\<rparr>)))
     = ''+altivec''"
  by (simp add: example_powerpc)
     (simp_all add: example_Library_def example_Options_def initial_Options_def)


text \<open>
  C10. When the user gives no feature string, the feature string a target machine
  is requested with is empty: the default features are not asked for. Only a
  non-empty list makes the driver start from the defaults.
\<close>

theorem no_features_no_defaults:
  assumes "MAttrs opts = []"
    and "CreateTargetMachine t cpu f l \<in> set (snd (llc_main lib opts))"
  shows "f = [] \<and> PackageFeatures lib t (MAttrs opts) = [] \<and>
         (\<forall>attrs. attrs \<noteq> [] \<longrightarrow>
            PackageFeatures lib t attrs =
              Features_getString lib (getDefaultSubtargetFeatures t # map AddFeature attrs))"
  using request_in_llc_main[OF assms(2)] assms(1)
  by (simp add: PackageFeatures_def)

theorem no_features_no_defaults_witness:
  "MAttrs (example_Options\<lparr>TargetTriple := ''powerpc-apple-darwin9''\<rparr>) = [] \<and>
   CreateTargetMachine ''powerpc-apple-darwin9'' [] [] CodeGenOpt_Default
     \<in> set (snd (llc_main example_Library
          (example_Options\<lparr>TargetTriple := ''powerpc-apple-darwin9''\<rparr>)))"
proof -
  have h: "MAttrs (example_Options\<lparr>TargetTriple := ''powerpc-apple-darwin9''\<rparr>) = []"
    by (simp add: example_Options_def initial_Options_def)
  have "\<exists>f. CreateTargetMachine ''powerpc-apple-darwin9'' [] f CodeGenOpt_Default
     \<in> set (snd (llc_main example_Library
          (example_Options\<lparr>TargetTriple := ''powerpc-apple-darwin9''\<rparr>)))"
    by (simp add: example_powerpc)
  then obtain f where f: "CreateTargetMachine ''powerpc-apple-darwin9'' [] f CodeGenOpt_Default
     \<in> set (snd (llc_main example_Library
          (example_Options\<lparr>TargetTriple := ''powerpc-apple-darwin9''\<rparr>)))" ..
  from no_features_no_defaults[OF h f] f h show ?thesis by simp
qed

subsection \<open>Idempotence, on the feature set of the specification\<close>

lemma spec_apply_off:
  assumes "A - {n} = B - {n}"
  shows "spec_apply rd dflt A c - {n} = spec_apply rd dflt B c - {n}"
  using assms by (cases c) (auto simp: spec_apply_def)

lemma spec_fold_off:
  assumes "A - {n} = B - {n}"
  shows "foldl (spec_apply rd dflt) A cs - {n} = foldl (spec_apply rd dflt) B cs - {n}"
  using assms
proof (induction cs arbitrary: A B)
  case Nil
  then show ?case by simp
next
  case (Cons c cs)
  have "spec_apply rd dflt A c - {n} = spec_apply rd dflt B c - {n}"
    by (rule spec_apply_off[OF Cons.prems])
  from Cons.IH[OF this] show ?case by simp
qed

lemma spec_apply_same:
  assumes "A - {fst (rd f)} = B - {fst (rd f)}"
  shows "spec_apply rd dflt A (AddFeature f) = spec_apply rd dflt B (AddFeature f)"
  using assms by (auto simp: spec_apply_def)

lemma spec_apply_keeps_rest:
  "spec_apply rd dflt A (AddFeature f) - {fst (rd f)} = A - {fst (rd f)}"
  by (auto simp: spec_apply_def)

lemma spec_apply_idem:
  "spec_apply rd dflt (spec_apply rd dflt S (AddFeature f)) (AddFeature f) =
   spec_apply rd dflt S (AddFeature f)"
  by (auto simp: spec_apply_def)

lemma spec_apply_commute:
  assumes "fst (rd g) \<noteq> fst (rd f)"
  shows "spec_apply rd dflt (spec_apply rd dflt S (AddFeature f)) (AddFeature g) =
         spec_apply rd dflt (spec_apply rd dflt S (AddFeature g)) (AddFeature f)"
  using assms by (auto simp: spec_apply_def)

lemma spec_fold_commute:
  assumes "\<forall>g\<in>set ys. fst (rd g) \<noteq> fst (rd f)"
  shows "foldl (spec_apply rd dflt) (spec_apply rd dflt S (AddFeature f)) (map AddFeature ys) =
         spec_apply rd dflt (foldl (spec_apply rd dflt) S (map AddFeature ys)) (AddFeature f)"
  using assms
proof (induction ys arbitrary: S)
  case Nil
  then show ?case by simp
next
  case (Cons g ys)
  from Cons.prems have g: "fst (rd g) \<noteq> fst (rd f)"
    and rest: "\<forall>g\<in>set ys. fst (rd g) \<noteq> fst (rd f)"
    by simp_all
  have "foldl (spec_apply rd dflt) (spec_apply rd dflt S (AddFeature f)) (map AddFeature (g # ys)) =
        foldl (spec_apply rd dflt)
          (spec_apply rd dflt (spec_apply rd dflt S (AddFeature g)) (AddFeature f))
          (map AddFeature ys)"
    by (simp add: spec_apply_commute[OF g])
  also have "\<dots> = spec_apply rd dflt
      (foldl (spec_apply rd dflt) (spec_apply rd dflt S (AddFeature g)) (map AddFeature ys))
      (AddFeature f)"
    by (rule Cons.IH[OF rest])
  finally show ?case by simp
qed

lemma spec_fold_twice:
  "foldl (spec_apply rd dflt) S (cs1 @ AddFeature f # cs2 @ AddFeature f # cs3) =
   foldl (spec_apply rd dflt) S (cs1 @ cs2 @ AddFeature f # cs3)"
proof -
  let ?step = "spec_apply rd dflt"
  let ?S1 = "foldl ?step S cs1"
  have "foldl ?step (?step ?S1 (AddFeature f)) cs2 - {fst (rd f)} =
        foldl ?step ?S1 cs2 - {fst (rd f)}"
    by (rule spec_fold_off) (rule spec_apply_keeps_rest)
  then have "?step (foldl ?step (?step ?S1 (AddFeature f)) cs2) (AddFeature f) =
             ?step (foldl ?step ?S1 cs2) (AddFeature f)"
    by (rule spec_apply_same)
  then show ?thesis by simp
qed


text \<open>
  C7. On the feature set of the specification: a list of user strings in which
  \<open>f\<close> occurs twice assembles to the same feature set, and so to the same
  feature string, as the list without the earlier of the two occurrences; in
  particular \<open>[f, f]\<close> assembles to what \<open>[f]\<close> does. When no string between
  the two occurrences names the feature that \<open>f\<close> names, the list without the
  later occurrence assembles to the same set as well.
\<close>

theorem feature_assembly_idempotent:
  "spec_feature_set reading defaults
     (getDefaultSubtargetFeatures t # map AddFeature (xs @ f # ys @ f # zs)) =
   spec_feature_set reading defaults
     (getDefaultSubtargetFeatures t # map AddFeature (xs @ ys @ f # zs)) \<and>
   PackageFeatures (spec_Library reading defaults render lib) t (xs @ f # ys @ f # zs) =
   PackageFeatures (spec_Library reading defaults render lib) t (xs @ ys @ f # zs) \<and>
   ((\<forall>g\<in>set ys. fst (reading g) \<noteq> fst (reading f)) \<longrightarrow>
      spec_feature_set reading defaults
        (getDefaultSubtargetFeatures t # map AddFeature (xs @ f # ys @ f # zs)) =
      spec_feature_set reading defaults
        (getDefaultSubtargetFeatures t # map AddFeature (xs @ f # ys @ zs)) \<and>
      PackageFeatures (spec_Library reading defaults render lib) t (xs @ f # ys @ f # zs) =
      PackageFeatures (spec_Library reading defaults render lib) t (xs @ f # ys @ zs))"
proof -
  let ?set = "\<lambda>attrs. spec_feature_set reading defaults
                (getDefaultSubtargetFeatures t # map AddFeature attrs)"
  let ?str = "PackageFeatures (spec_Library reading defaults render lib) t"
  have str: "?str attrs = render (?set attrs)" if "attrs \<noteq> []" for attrs
    using that by (simp add: PackageFeatures_def spec_Library_def)
  have earlier: "?set (xs @ f # ys @ f # zs) = ?set (xs @ ys @ f # zs)"
    using spec_fold_twice[of reading defaults "{}"
            "getDefaultSubtargetFeatures t # map AddFeature xs" f "map AddFeature ys"
            "map AddFeature zs"]
    by (simp add: spec_feature_set_def)
  have s1: "?str (xs @ f # ys @ f # zs) = render (?set (xs @ f # ys @ f # zs))"
    by (rule str) simp
  have s2: "?str (xs @ ys @ f # zs) = render (?set (xs @ ys @ f # zs))"
    by (rule str) simp
  have s3: "?str (xs @ f # ys @ zs) = render (?set (xs @ f # ys @ zs))"
    by (rule str) simp
  have earlier_str: "?str (xs @ f # ys @ f # zs) = ?str (xs @ ys @ f # zs)"
    by (simp only: s1 s2 earlier)
  have later: "?set (xs @ f # ys @ f # zs) = ?set (xs @ f # ys @ zs)"
    if apart: "\<forall>g\<in>set ys. fst (reading g) \<noteq> fst (reading f)"
    by (simp add: spec_feature_set_def spec_fold_commute[OF apart] spec_apply_idem)
  have later_str: "?str (xs @ f # ys @ f # zs) = ?str (xs @ f # ys @ zs)"
    if apart: "\<forall>g\<in>set ys. fst (reading g) \<noteq> fst (reading f)"
    by (simp only: s1 s3 later[OF apart])
  from earlier earlier_str later later_str show ?thesis by blast
qed

theorem feature_assembly_idempotent_witness:
  "spec_feature_set sign_reading (\<lambda>t. {})
     (getDefaultSubtargetFeatures ''x86_64-unknown-linux-gnu'' # map AddFeature [''sse2'', ''sse2''])
     = {''sse2''} \<and>
   spec_feature_set sign_reading (\<lambda>t. {})
     (getDefaultSubtargetFeatures ''x86_64-unknown-linux-gnu'' # map AddFeature [''sse2''])
     = {''sse2''} \<and>
   fst (sign_reading ''-sse3'') \<noteq> fst (sign_reading ''sse2'') \<and>
   spec_feature_set sign_reading (\<lambda>t. {''sse3''})
     (getDefaultSubtargetFeatures ''x86_64-unknown-linux-gnu'' #
      map AddFeature [''sse2'', ''-sse3'', ''sse2''])
     = {''sse2''} \<and>
   spec_feature_set sign_reading (\<lambda>t. {''sse3''})
     (getDefaultSubtargetFeatures ''x86_64-unknown-linux-gnu'' #
      map AddFeature [''sse2'', ''-sse3''])
     = {''sse2''}"
  using feature_assembly_idempotent[of sign_reading "\<lambda>t. {}" "''x86_64-unknown-linux-gnu''"
          "[]" "''sse2''" "[]" "[]" "\<lambda>S. []" example_Library]
        feature_assembly_idempotent[of sign_reading "\<lambda>t. {''sse3''}"
          "''x86_64-unknown-linux-gnu''" "[]" "''sse2''" "[''-sse3'']" "[]" "\<lambda>S. []"
          example_Library]
  by (auto simp: spec_feature_set_def spec_apply_def sign_reading_def)

end
